theory Spec2Isabelle
  imports Complex_Main
begin

section \<open>Python values, errors and pandas floats\<close>

text \<open>
  The profile \<^verbatim>\<open>info\<close> is a Python dict from field names to values of any type: the
  provider stores numbers, strings (the sector, but also texts such as \<^verbatim>\<open>'Infinity'\<close> in
  place of a ratio) and \<^verbatim>\<open>None\<close>. \<open>PyNum\<close> is a number held as a real: a float, or an
  int of ordinary size, which the code treats like the float of the same value. \<open>PyInt\<close>
  is a Python int of any size; it differs from \<open>PyNum\<close> only where an int too large for a
  float is converted to one, which raises \<^verbatim>\<open>OverflowError\<close>. Outside the DCF valuation
  the arithmetic on numbers is exact: rounding is not modelled there.
\<close>

datatype pyval = PyNone | PyNum real | PyStr string | PyInt int

datatype error = TypeError | IndexError | OverflowError | ValueError | ZeroDivisionError

type_synonym info = "string \<rightharpoonup> pyval"

text \<open>\<^verbatim>\<open>info.get(key, default)\<close>\<close>

definition info_get :: "info \<Rightarrow> string \<Rightarrow> pyval \<Rightarrow> pyval" where
  "info_get info k d = (case info k of None \<Rightarrow> d | Some v \<Rightarrow> v)"

text \<open>Truth value of an object, as \<^verbatim>\<open>if x:\<close> and \<^verbatim>\<open>not x\<close> test it.\<close>

fun truthy :: "pyval \<Rightarrow> bool" where
  "truthy PyNone = False"
| "truthy (PyNum x) = (x \<noteq> 0)"
| "truthy (PyStr s) = (s \<noteq> [])"
| "truthy (PyInt n) = (n \<noteq> 0)"

text \<open>
  Ordering comparisons of a profile value with a numeric literal: between a string (or
  \<^verbatim>\<open>None\<close>) and a number they raise \<^verbatim>\<open>TypeError\<close>. An int is compared with a float by
  value, without conversion, so an int of any size compares.
\<close>

fun py_lt :: "pyval \<Rightarrow> real \<Rightarrow> error + bool" where
  "py_lt (PyNum x) c = Inr (x < c)"
| "py_lt (PyInt n) c = Inr (real_of_int n < c)"
| "py_lt _ c = Inl TypeError"

fun py_gt :: "pyval \<Rightarrow> real \<Rightarrow> error + bool" where
  "py_gt (PyNum x) c = Inr (x > c)"
| "py_gt (PyInt n) c = Inr (real_of_int n > c)"
| "py_gt _ c = Inl TypeError"

fun py_le :: "pyval \<Rightarrow> real \<Rightarrow> error + bool" where
  "py_le (PyNum x) c = Inr (x \<le> c)"
| "py_le (PyInt n) c = Inr (real_of_int n \<le> c)"
| "py_le _ c = Inl TypeError"

text \<open>The number held by a value; used only where a comparison has already succeeded.\<close>

fun num_of :: "pyval \<Rightarrow> real" where
  "num_of (PyNum x) = x"
| "num_of (PyInt n) = real_of_int n"
| "num_of _ = 0"

text \<open>
  The magnitude from which a number no longer fits a float (a binary64 double): halfway
  between the largest double and \<open>2 ^ 1024\<close>. An int of at least this magnitude cannot be
  converted to a float.
\<close>

definition double_limit :: real where
  "double_limit = 2 ^ 1024 - 2 ^ 970"

text \<open>
  The conversion of a number to a float, as arithmetic between it and a float makes it.
\<close>

fun to_float :: "pyval \<Rightarrow> error + real" where
  "to_float (PyNum x) = Inr x"
| "to_float (PyInt n) =
     (if double_limit \<le> \<bar>real_of_int n\<bar> then Inl OverflowError else Inr (real_of_int n))"
| "to_float _ = Inl TypeError"

text \<open>
  Three classes of profile values, by which the inputs that make an operation raise are
  told: a non-empty text, which passes a truth test and fails every comparison and
  arithmetic with a number; an int too large for a float; a number above zero.
\<close>

definition is_text :: "pyval \<Rightarrow> bool" where
  "is_text v = (case v of PyStr s \<Rightarrow> s \<noteq> [] | _ \<Rightarrow> False)"

definition is_huge :: "pyval \<Rightarrow> bool" where
  "is_huge v = (case v of PyInt n \<Rightarrow> double_limit \<le> \<bar>real_of_int n\<bar> | _ \<Rightarrow> False)"

definition is_positive :: "pyval \<Rightarrow> bool" where
  "is_positive v = (case v of PyNum x \<Rightarrow> 0 < x | PyInt n \<Rightarrow> 0 < n | _ \<Rightarrow> False)"

text \<open>
  The columns computed by pandas hold floats with the special values of IEEE 754:
  dividing by zero does not raise there, it gives an infinity or NaN. A float is a real
  or one of the three special values; zero is unsigned.
\<close>

datatype fl = Fin real | PInf | NInf | NaN

fun fl_neg :: "fl \<Rightarrow> fl" where
  "fl_neg (Fin a) = Fin (- a)"
| "fl_neg PInf = NInf"
| "fl_neg NInf = PInf"
| "fl_neg NaN = NaN"

fun fl_add :: "fl \<Rightarrow> fl \<Rightarrow> fl" where
  "fl_add (Fin a) (Fin b) = Fin (a + b)"
| "fl_add NaN _ = NaN"
| "fl_add _ NaN = NaN"
| "fl_add PInf NInf = NaN"
| "fl_add NInf PInf = NaN"
| "fl_add PInf _ = PInf"
| "fl_add _ PInf = PInf"
| "fl_add NInf _ = NInf"
| "fl_add _ NInf = NInf"

definition fl_sub :: "fl \<Rightarrow> fl \<Rightarrow> fl" where
  "fl_sub a b = fl_add a (fl_neg b)"

fun fl_mul :: "fl \<Rightarrow> fl \<Rightarrow> fl" where
  "fl_mul (Fin a) (Fin b) = Fin (a * b)"
| "fl_mul NaN _ = NaN"
| "fl_mul _ NaN = NaN"
| "fl_mul PInf (Fin b) = (if b > 0 then PInf else if b < 0 then NInf else NaN)"
| "fl_mul NInf (Fin b) = (if b > 0 then NInf else if b < 0 then PInf else NaN)"
| "fl_mul (Fin a) PInf = (if a > 0 then PInf else if a < 0 then NInf else NaN)"
| "fl_mul (Fin a) NInf = (if a > 0 then NInf else if a < 0 then PInf else NaN)"
| "fl_mul PInf PInf = PInf"
| "fl_mul NInf NInf = PInf"
| "fl_mul PInf NInf = NInf"
| "fl_mul NInf PInf = NInf"

fun fl_div :: "fl \<Rightarrow> fl \<Rightarrow> fl" where
  "fl_div (Fin a) (Fin b) =
     (if b \<noteq> 0 then Fin (a / b)
      else if a > 0 then PInf else if a < 0 then NInf else NaN)"
| "fl_div NaN _ = NaN"
| "fl_div _ NaN = NaN"
| "fl_div (Fin a) PInf = Fin 0"
| "fl_div (Fin a) NInf = Fin 0"
| "fl_div PInf (Fin b) = (if b \<ge> 0 then PInf else NInf)"
| "fl_div NInf (Fin b) = (if b \<ge> 0 then NInf else PInf)"
| "fl_div PInf PInf = NaN"
| "fl_div PInf NInf = NaN"
| "fl_div NInf PInf = NaN"
| "fl_div NInf NInf = NaN"

fun fl_sqrt :: "fl \<Rightarrow> fl" where
  "fl_sqrt (Fin a) = (if a < 0 then NaN else Fin (sqrt a))"
| "fl_sqrt PInf = PInf"
| "fl_sqrt NInf = NaN"
| "fl_sqrt NaN = NaN"

text \<open>Comparisons with NaN are false.\<close>

fun fl_less :: "fl \<Rightarrow> fl \<Rightarrow> bool" where
  "fl_less (Fin a) (Fin b) = (a < b)"
| "fl_less NaN _ = False"
| "fl_less _ NaN = False"
| "fl_less NInf NInf = False"
| "fl_less NInf _ = True"
| "fl_less PInf _ = False"
| "fl_less (Fin a) PInf = True"
| "fl_less (Fin a) NInf = False"

fun fl_le :: "fl \<Rightarrow> fl \<Rightarrow> bool" where
  "fl_le (Fin a) (Fin b) = (a \<le> b)"
| "fl_le NaN _ = False"
| "fl_le _ NaN = False"
| "fl_le NInf _ = True"
| "fl_le _ PInf = True"
| "fl_le PInf _ = False"
| "fl_le (Fin a) NInf = False"

definition fl_sum :: "fl list \<Rightarrow> fl" where
  "fl_sum xs = foldl fl_add (Fin 0) xs"

text \<open>\<^verbatim>\<open>Series.dropna()\<close> and \<^verbatim>\<open>Series.mean()\<close> (NaN for no value)\<close>

definition dropna :: "fl list \<Rightarrow> fl list" where
  "dropna xs = filter (\<lambda>x. x \<noteq> NaN) xs"

definition fl_mean :: "fl list \<Rightarrow> fl" where
  "fl_mean xs =
     (let ys = dropna xs in
      if ys = [] then NaN else fl_div (fl_sum ys) (Fin (real (length ys))))"

text \<open>
  \<^verbatim>\<open>Series.pct_change()\<close>: the first entry is NaN, every later one is the value
  divided by its predecessor, minus one.
\<close>

fun pct_change :: "fl list \<Rightarrow> fl list" where
  "pct_change [] = []"
| "pct_change (x # xs) = NaN # map2 (\<lambda>p c. fl_sub (fl_div c p) (Fin 1)) (x # xs) xs"

text \<open>\<^verbatim>\<open>Series.diff()\<close>\<close>

fun diff :: "fl list \<Rightarrow> fl list" where
  "diff [] = []"
| "diff (x # xs) = NaN # map2 (\<lambda>p c. fl_sub c p) (x # xs) xs"

text \<open>
  \<^verbatim>\<open>Series.rolling(w).mean().iloc[-1]\<close>: the mean of the last \<open>w\<close> entries, NaN
  while fewer than \<open>w\<close> entries exist or one of them is NaN.
\<close>

definition rolling_mean_last :: "nat \<Rightarrow> fl list \<Rightarrow> fl" where
  "rolling_mean_last w xs =
     (if length xs < w then NaN
      else fl_div (fl_sum (drop (length xs - w) xs)) (Fin (real w)))"

text \<open>\<^verbatim>\<open>Series.std()\<close>: sample standard deviation of the entries that are not NaN.\<close>

definition fl_std :: "fl list \<Rightarrow> fl" where
  "fl_std xs =
     (let ys = dropna xs; n = length ys in
      if n < 2 then NaN
      else let avg = fl_div (fl_sum ys) (Fin (real n));
               sqr = map (\<lambda>y. fl_mul (fl_sub avg y) (fl_sub avg y)) ys
           in fl_sqrt (fl_div (fl_sum sqr) (Fin (real (n - 1)))))"

text \<open>
  A message built by an f-string holds a number printed with one decimal; the printing
  is kept symbolic: the text before the number, the number, the text after it.
\<close>

datatype factor = Plain string | Fmt string fl string

text \<open>
  The number that \<^verbatim>\<open>{x*100:.1f}\<close> prints. For an int the product is an int, and
  printing it with the format \<^verbatim>\<open>f\<close> converts it to a float, which raises when it is too
  large; for a text the product is a text, which that format refuses.
\<close>

fun fmt_pct :: "pyval \<Rightarrow> error + fl" where
  "fmt_pct (PyNum x) = Inr (Fin (x * 100))"
| "fmt_pct (PyInt n) =
     (if double_limit \<le> \<bar>real_of_int n * 100\<bar> then Inl OverflowError
      else Inr (Fin (real_of_int n * 100)))"
| "fmt_pct (PyStr s) = Inl ValueError"
| "fmt_pct PyNone = Inl TypeError"

section \<open>recommendations.py\<close>

text \<open>
  The price history \<^verbatim>\<open>hist_data\<close> is modelled by its \<^verbatim>\<open>Close\<close> column, oldest bar
  first: \<^verbatim>\<open>len(hist_data)\<close> is the length of the list and \<^verbatim>\<open>hist_data.empty\<close> holds
  for the empty list.
\<close>

type_synonym hist_data = "real list"

datatype risk_level = High | Moderate | Low

datatype risk = Risk risk_level fl | RiskUnavailable

datatype reason = Reason string | Unable error

record recommendation =
  action :: string
  reason :: reason
  score :: int
  factors :: "(string \<times> factor) list"
  risk_assessment :: risk

text \<open>Factor 1: valuation by the trailing P/E ratio.\<close>

definition pe_factor :: "info \<Rightarrow> error + (int \<times> factor)" where
  "pe_factor info =
     (let pe_ratio = info_get info ''trailingPE'' (PyNum 0) in
      if truthy pe_ratio then
        (case py_lt pe_ratio 15 of
           Inl e \<Rightarrow> Inl e
         | Inr lt15 \<Rightarrow>
             if lt15 then Inr (2, Plain ''Undervalued (P/E < 15)'')
             else (case py_lt pe_ratio 25 of
                     Inl e \<Rightarrow> Inl e
                   | Inr lt25 \<Rightarrow>
                       if lt25 then Inr (1, Plain ''Fairly valued (P/E 15-25)'')
                       else Inr (- 1, Plain ''Overvalued (P/E > 25)'')))
      else Inr (0, Plain ''P/E data not available''))"

text \<open>Factor 2: the last close against the 20-bar and 50-bar moving averages.\<close>

definition momentum_factor :: "hist_data \<Rightarrow> int \<times> factor" where
  "momentum_factor hist =
     (if hist \<noteq> [] \<and> length hist \<ge> 50 then
        (let current_price = Fin (last hist);
             ma_20 = rolling_mean_last 20 (map Fin hist);
             ma_50 = rolling_mean_last 50 (map Fin hist)
         in if fl_less ma_20 current_price \<and> fl_less ma_50 ma_20 then
              (2, Plain ''Strong uptrend (above 20-day and 50-day MA)'')
            else if fl_less ma_20 current_price then
              (1, Plain ''Positive momentum (above 20-day MA)'')
            else if fl_less current_price ma_50 then
              (- 1, Plain ''Weak momentum (below 50-day MA)'')
            else (0, Plain ''Neutral momentum''))
      else (0, Plain ''Insufficient data for momentum analysis''))"

text \<open>
  Factor 3: RSI over a 14-bar window. \<^verbatim>\<open>delta.where(delta > 0, 0)\<close> keeps the positive
  changes and puts 0 everywhere else, also in the first row, whose change is NaN.
\<close>

definition gains :: "fl list \<Rightarrow> fl list" where
  "gains delta = map (\<lambda>d. if fl_less (Fin 0) d then d else Fin 0) delta"

definition losses :: "fl list \<Rightarrow> fl list" where
  "losses delta = map (\<lambda>d. fl_neg (if fl_less d (Fin 0) then d else Fin 0)) delta"

definition current_rsi :: "hist_data \<Rightarrow> fl" where
  "current_rsi hist =
     (let delta = diff (map Fin hist);
          gain = rolling_mean_last 14 (gains delta);
          loss = rolling_mean_last 14 (losses delta);
          rs = fl_div gain loss
      in fl_sub (Fin 100) (fl_div (Fin 100) (fl_add (Fin 1) rs)))"

definition rsi_factor :: "hist_data \<Rightarrow> int \<times> factor" where
  "rsi_factor hist =
     (if hist \<noteq> [] \<and> length hist \<ge> 14 then
        (let rsi = current_rsi hist in
         if rsi \<noteq> NaN then
           (if fl_less rsi (Fin 30) then (1, Fmt ''Oversold (RSI: '' rsi '')'')
            else if fl_less (Fin 70) rsi then (- 1, Fmt ''Overbought (RSI: '' rsi '')'')
            else (0, Fmt ''Neutral (RSI: '' rsi '')''))
         else (0, Plain ''RSI calculation not available''))
      else (0, Plain ''Insufficient data for RSI''))"

text \<open>Factor 4: financial health by debt to equity.\<close>

definition debt_factor :: "info \<Rightarrow> error + (int \<times> factor)" where
  "debt_factor info =
     (let debt_to_equity = info_get info ''debtToEquity'' (PyNum 0) in
      if truthy debt_to_equity then
        (case py_lt debt_to_equity 0.3 of
           Inl e \<Rightarrow> Inl e
         | Inr low \<Rightarrow>
             if low then Inr (1, Plain ''Strong balance sheet (low debt)'')
             else (case py_gt debt_to_equity 1.0 of
                     Inl e \<Rightarrow> Inl e
                   | Inr high \<Rightarrow>
                       if high then Inr (- 1, Plain ''High debt levels'')
                       else Inr (0, Plain ''Moderate debt levels'')))
      else Inr (0, Plain ''Debt information not available''))"

text \<open>Factor 5: dividend yield.\<close>

definition dividend_factor :: "info \<Rightarrow> error + (int \<times> factor)" where
  "dividend_factor info =
     (let dividend_yield = info_get info ''dividendYield'' (PyNum 0) in
      if truthy dividend_yield then
        (case py_gt dividend_yield 0.03 of
           Inl e \<Rightarrow> Inl e
         | Inr attractive \<Rightarrow>
             (case fmt_pct dividend_yield of
                Inl e \<Rightarrow> Inl e
              | Inr pct \<Rightarrow>
                  if attractive then Inr (1, Fmt ''Attractive dividend yield ('' pct ''%)'')
                  else Inr (0, Fmt ''Moderate dividend yield ('' pct ''%)'')))
      else Inr (0, Plain ''No dividend or data not available''))"

text \<open>
  Factor 6: revenue growth. \<^verbatim>\<open>a and b\<close> evaluates \<open>b\<close> only when \<open>a\<close> is true, so a
  missing or zero growth is never compared.
\<close>

definition revenue_factor :: "info \<Rightarrow> error + (int \<times> factor)" where
  "revenue_factor info =
     (let revenue_growth = info_get info ''revenueGrowth'' (PyNum 0) in
      case (if truthy revenue_growth then py_gt revenue_growth 0.05 else Inr False) of
        Inl e \<Rightarrow> Inl e
      | Inr strong \<Rightarrow>
          if strong then
            (case fmt_pct revenue_growth of
               Inl e \<Rightarrow> Inl e
             | Inr pct \<Rightarrow> Inr (1, Fmt ''Strong revenue growth ('' pct ''%)''))
          else (case (if truthy revenue_growth then py_lt revenue_growth 0 else Inr False) of
                  Inl e \<Rightarrow> Inl e
                | Inr declining \<Rightarrow>
                    if declining then
                      (case fmt_pct revenue_growth of
                         Inl e \<Rightarrow> Inl e
                       | Inr pct \<Rightarrow> Inr (- 1, Fmt ''Declining revenue ('' pct ''%)''))
                    else Inr (0, Plain ''Moderate or unknown revenue growth'')))"

text \<open>The final recommendation from the total score.\<close>

definition final_action :: "int \<Rightarrow> string \<times> string" where
  "final_action recommendation_score =
     (if recommendation_score \<ge> 4 then
        (''STRONG BUY'', ''Multiple positive indicators suggest strong upside potential'')
      else if recommendation_score \<ge> 2 then
        (''BUY'', ''Overall positive outlook with good risk-reward ratio'')
      else if recommendation_score \<ge> 0 then
        (''HOLD'', ''Mixed signals suggest maintaining current position'')
      else if recommendation_score \<ge> - 2 then
        (''WEAK SELL'', ''Some concerning factors but not necessarily time to exit'')
      else
        (''SELL'', ''Multiple negative indicators suggest significant downside risk''))"

text \<open>
  Risk assessment: the standard deviation of the daily returns times \<open>\<surd>252\<close>, and 0
  for an empty history.
\<close>

definition volatility :: "hist_data \<Rightarrow> fl" where
  "volatility hist =
     (if hist \<noteq> [] then fl_mul (fl_std (pct_change (map Fin hist))) (Fin (sqrt 252))
      else Fin 0)"

definition risk_level_of :: "fl \<Rightarrow> risk_level" where
  "risk_level_of v =
     (if fl_less (Fin 0.4) v then High
      else if fl_less (Fin 0.25) v then Moderate
      else Low)"

text \<open>
  The body of the \<^verbatim>\<open>try\<close> block of \<^verbatim>\<open>get_recommendation\<close>: the six factors in
  order, the first error ends it.
\<close>

definition get_recommendation_body :: "info \<Rightarrow> hist_data \<Rightarrow> error + recommendation" where
  "get_recommendation_body info hist =
     (case pe_factor info of Inl e \<Rightarrow> Inl e | Inr (s1, f1) \<Rightarrow>
      (case momentum_factor hist of (s2, f2) \<Rightarrow>
      (case rsi_factor hist of (s3, f3) \<Rightarrow>
      (case debt_factor info of Inl e \<Rightarrow> Inl e | Inr (s4, f4) \<Rightarrow>
      (case dividend_factor info of Inl e \<Rightarrow> Inl e | Inr (s5, f5) \<Rightarrow>
      (case revenue_factor info of Inl e \<Rightarrow> Inl e | Inr (s6, f6) \<Rightarrow>
        (let recommendation_score = s1 + s2 + s3 + s4 + s5 + s6;
             v = volatility hist
         in Inr \<lparr> action = fst (final_action recommendation_score),
                  reason = Reason (snd (final_action recommendation_score)),
                  score = recommendation_score,
                  factors = [(''Valuation (P/E)'', f1), (''Price Momentum'', f2),
                             (''Technical (RSI)'', f3), (''Financial Health'', f4),
                             (''Dividend'', f5), (''Revenue Growth'', f6)],
                  risk_assessment = Risk (risk_level_of v) (fl_mul v (Fin 100)) \<rparr>)))))))"

text \<open>\<^verbatim>\<open>except Exception as e\<close>: the fail-safe result.\<close>

definition recommendation_fallback :: "error \<Rightarrow> recommendation" where
  "recommendation_fallback e =
     \<lparr> action = ''HOLD'', reason = Unable e, score = 0,
       factors = [(''Error'', Plain ''Insufficient data for analysis'')],
       risk_assessment = RiskUnavailable \<rparr>"

definition get_recommendation :: "info \<Rightarrow> hist_data \<Rightarrow> recommendation" where
  "get_recommendation info hist =
     (case get_recommendation_body info hist of
        Inl e \<Rightarrow> recommendation_fallback e
      | Inr r \<Rightarrow> r)"

section \<open>valuation.py\<close>

text \<open>
  A statement of the provider (\<^verbatim>\<open>ticker.cashflow\<close>, \<^verbatim>\<open>ticker.financials\<close>,
  \<^verbatim>\<open>ticker.balance_sheet\<close>) is a DataFrame: one labelled row per line item, one column
  per period-end date, NaN where a figure is missing. Row labels and column labels are
  taken to be distinct, as the provider delivers them. The frame is empty when it has no
  row or no column.
\<close>

record frame =
  columns :: "nat list"
  rows :: "(string \<times> fl list) list"

definition frame_empty :: "frame \<Rightarrow> bool" where
  "frame_empty f = (rows f = [] \<or> columns f = [])"

text \<open>\<^verbatim>\<open>key in frame.index\<close>\<close>

definition in_index :: "string \<Rightarrow> frame \<Rightarrow> bool" where
  "in_index k f = (k \<in> set (map fst (rows f)))"

text \<open>\<^verbatim>\<open>frame.loc[key]\<close>: the row as a series indexed by the column labels.\<close>

type_synonym series = "(nat \<times> fl) list"

definition loc :: "frame \<Rightarrow> string \<Rightarrow> series" where
  "loc f k = (case map_of (rows f) k of None \<Rightarrow> [] | Some vs \<Rightarrow> zip (columns f) vs)"

text \<open>\<^verbatim>\<open>series.iloc[0]\<close>\<close>

fun iloc0 :: "series \<Rightarrow> error + fl" where
  "iloc0 [] = Inl IndexError"
| "iloc0 ((d, v) # _) = Inr v"

subsection \<open>Rounding to a double\<close>

text \<open>
  The DCF valuation computes on floats, and every operation rounds its exact result to
  the nearest double, ties going to the even significand (IEEE 754 binary64). A double
  has a significand of 53 bits and an exponent of at least \<open>-1022\<close>; a result of
  magnitude \<open>double_limit\<close> or more rounds to an infinity.
\<close>

definition round_half_even :: "real \<Rightarrow> int" where
  "round_half_even q =
     (let f = \<lfloor>q\<rfloor> in
      if q - of_int f < 1 / 2 then f
      else if q - of_int f > 1 / 2 then f + 1
      else if even f then f else f + 1)"

text \<open>The binary exponent of a positive real, and the spacing of the doubles around it.\<close>

definition exponent_of :: "real \<Rightarrow> int" where
  "exponent_of x = max \<lfloor>log 2 x\<rfloor> (- 1022)"

definition ulp_of :: "real \<Rightarrow> real" where
  "ulp_of x = 2 powr (of_int (exponent_of x) - 52)"

definition nearest :: "real \<Rightarrow> real" where
  "nearest x = of_int (round_half_even (x / ulp_of x)) * ulp_of x"

definition round_pos :: "real \<Rightarrow> fl" where
  "round_pos x = (if double_limit \<le> x then PInf else Fin (nearest x))"

definition round_double :: "real \<Rightarrow> fl" where
  "round_double x =
     (if x = 0 then Fin 0
      else if 0 < x then round_pos x
      else fl_neg (round_pos (- x)))"

text \<open>
  The float operations: on two finite operands the exact result is rounded, on the
  others the rules of the special values apply. \<^verbatim>\<open>x ** n\<close> is taken to be correctly
  rounded as well.
\<close>

definition fr_add :: "fl \<Rightarrow> fl \<Rightarrow> fl" where
  "fr_add a b = (case (a, b) of (Fin x, Fin y) \<Rightarrow> round_double (x + y) | _ \<Rightarrow> fl_add a b)"

definition fr_sub :: "fl \<Rightarrow> fl \<Rightarrow> fl" where
  "fr_sub a b = (case (a, b) of (Fin x, Fin y) \<Rightarrow> round_double (x - y) | _ \<Rightarrow> fl_sub a b)"

definition fr_mul :: "fl \<Rightarrow> fl \<Rightarrow> fl" where
  "fr_mul a b = (case (a, b) of (Fin x, Fin y) \<Rightarrow> round_double (x * y) | _ \<Rightarrow> fl_mul a b)"

definition fr_div :: "fl \<Rightarrow> fl \<Rightarrow> fl" where
  "fr_div a b =
     (case (a, b) of
        (Fin x, Fin y) \<Rightarrow> if y = 0 then fl_div a b else round_double (x / y)
      | _ \<Rightarrow> fl_div a b)"

definition fr_pow :: "fl \<Rightarrow> nat \<Rightarrow> fl" where
  "fr_pow a n =
     (if n = 0 then Fin 1
      else case a of
        Fin x \<Rightarrow> round_double (x ^ n)
      | PInf \<Rightarrow> PInf
      | NInf \<Rightarrow> (if even n then PInf else NInf)
      | NaN \<Rightarrow> NaN)"

text \<open>
  A number of the profile as an operand of a float operation: a float is taken as it
  is, an int is converted, which rounds it and raises when it is too large.
\<close>

fun to_double :: "pyval \<Rightarrow> error + fl" where
  "to_double (PyNum x) = Inr (Fin x)"
| "to_double (PyInt n) =
     (if double_limit \<le> \<bar>real_of_int n\<bar> then Inl OverflowError
      else Inr (round_double (real_of_int n)))"
| "to_double _ = Inl TypeError"

text \<open>\<^verbatim>\<open>revenue * 0.05\<close> and \<^verbatim>\<open>enterprise_value / shares_outstanding\<close>\<close>

definition py_mul_float :: "pyval \<Rightarrow> real \<Rightarrow> error + fl" where
  "py_mul_float v c =
     (case to_double v of Inl e \<Rightarrow> Inl e | Inr d \<Rightarrow> Inr (fr_mul d (round_double c)))"

definition fl_div_py :: "fl \<Rightarrow> pyval \<Rightarrow> error + fl" where
  "fl_div_py a v = (case to_double v of Inl e \<Rightarrow> Inl e | Inr d \<Rightarrow> Inr (fr_div a d))"

subsection \<open>The DCF fair value\<close>

text \<open>The DCF assumptions, as the literals of the source; the code holds their doubles.\<close>

definition growth_rate :: real where "growth_rate = 0.05"
definition discount_rate :: real where "discount_rate = 0.10"
definition terminal_growth :: real where "terminal_growth = 0.02"

text \<open>
  The most recent free cash flow: the first column of the row \<^verbatim>\<open>Free Cash Flow\<close>, or
  of \<^verbatim>\<open>Operating Cash Flow\<close> less 5% of the revenue. \<open>Inr None\<close> is the early
  \<^verbatim>\<open>return None\<close>.
\<close>

definition recent_fcf_of :: "frame \<Rightarrow> info \<Rightarrow> error + fl option" where
  "recent_fcf_of cash_flow info =
     (if frame_empty cash_flow then Inr None
      else if in_index ''Free Cash Flow'' cash_flow then
        (case iloc0 (loc cash_flow ''Free Cash Flow'') of
           Inl e \<Rightarrow> Inl e | Inr v \<Rightarrow> Inr (Some v))
      else if in_index ''Operating Cash Flow'' cash_flow then
        (case iloc0 (loc cash_flow ''Operating Cash Flow'') of
           Inl e \<Rightarrow> Inl e
         | Inr operating_cf \<Rightarrow>
             (let revenue = info_get info ''totalRevenue'' (PyNum 0) in
              case (if truthy revenue then py_mul_float revenue 0.05 else Inr (Fin 0)) of
                Inl e \<Rightarrow> Inl e
              | Inr capex \<Rightarrow> Inr (Some (fr_sub operating_cf capex))))
      else Inr None)"

text \<open>The present value of the five projected cash flows, summed year by year.\<close>

definition one_plus :: "real \<Rightarrow> fl" where
  "one_plus rate = fr_add (Fin 1) (round_double rate)"

definition pv_fcf_of :: "fl \<Rightarrow> fl" where
  "pv_fcf_of recent_fcf =
     foldl (\<lambda>pv_fcf year.
              fr_add pv_fcf
                (fr_div (fr_mul recent_fcf (fr_pow (one_plus growth_rate) year))
                        (fr_pow (one_plus discount_rate) year)))
           (Fin 0) [1, 2, 3, 4, 5]"

definition enterprise_value_of :: "fl \<Rightarrow> fl" where
  "enterprise_value_of recent_fcf =
     (let terminal_fcf =
            fr_mul (fr_mul recent_fcf (fr_pow (one_plus growth_rate) 5))
                   (one_plus terminal_growth);
          terminal_value =
            fr_div terminal_fcf
                   (fr_sub (round_double discount_rate) (round_double terminal_growth));
          pv_fcf = pv_fcf_of recent_fcf;
          pv_terminal = fr_div terminal_value (fr_pow (one_plus discount_rate) 5)
      in fr_add pv_fcf pv_terminal)"

definition calculate_dcf_body :: "frame \<Rightarrow> info \<Rightarrow> error + fl option" where
  "calculate_dcf_body cash_flow info =
     (case recent_fcf_of cash_flow info of
        Inl e \<Rightarrow> Inl e
      | Inr None \<Rightarrow> Inr None
      | Inr (Some recent_fcf) \<Rightarrow>
          if recent_fcf = NaN \<or> fl_le recent_fcf (Fin 0) then Inr None
          else (let enterprise_value = enterprise_value_of recent_fcf;
                    shares_outstanding = info_get info ''sharesOutstanding'' (PyNum 0)
                in if \<not> truthy shares_outstanding then Inr None
                   else (case fl_div_py enterprise_value shares_outstanding of
                           Inl e \<Rightarrow> Inl e
                         | Inr fair_value_per_share \<Rightarrow> Inr (Some fair_value_per_share))))"

text \<open>\<^verbatim>\<open>except Exception: return None\<close>\<close>

definition calculate_dcf_value :: "frame \<Rightarrow> info \<Rightarrow> fl option" where
  "calculate_dcf_value cash_flow info =
     (case calculate_dcf_body cash_flow info of Inl e \<Rightarrow> None | Inr r \<Rightarrow> r)"

text \<open>The sector benchmarks, a dict from sector name to P/E.\<close>

definition sector_pe_estimates :: "(string \<times> real) list" where
  "sector_pe_estimates =
     [(''Technology'', 25),
      (''Healthcare'', 20),
      (''Financial Services'', 12),
      (''Consumer Cyclical'', 18),
      (''Consumer Defensive'', 22),
      (''Energy'', 15),
      (''Utilities'', 16),
      (''Real Estate'', 20),
      (''Materials'', 16),
      (''Industrials'', 18),
      (''Communication Services'', 20)]"

text \<open>
  \<^verbatim>\<open>sector_pe_estimates.get(sector, 20)\<close>: the keys are strings, so a sector that is
  \<^verbatim>\<open>None\<close> or a number is not found.
\<close>

fun benchmark_of :: "pyval \<Rightarrow> real" where
  "benchmark_of (PyStr s) = (case map_of sector_pe_estimates s of None \<Rightarrow> 20 | Some pe \<Rightarrow> pe)"
| "benchmark_of _ = 20"

text \<open>
  \<^verbatim>\<open>eps * benchmark_pe\<close>: the benchmark is an int, so the product with an int EPS is
  an exact int of any size, and nothing is converted.
\<close>

fun py_mul :: "pyval \<Rightarrow> real \<Rightarrow> error + real" where
  "py_mul (PyNum x) c = Inr (x * c)"
| "py_mul (PyInt n) c = Inr (real_of_int n * c)"
| "py_mul _ c = Inl TypeError"

definition calculate_pe_body :: "info \<Rightarrow> error + real option" where
  "calculate_pe_body info =
     (let eps = info_get info ''trailingEps'' (PyNum 0) in
      case (if \<not> truthy eps then Inr True else py_le eps 0) of
        Inl e \<Rightarrow> Inl e
      | Inr no_eps \<Rightarrow>
          if no_eps then Inr None
          else (let current_pe = info_get info ''trailingPE'' (PyNum 0) in
                if \<not> truthy current_pe then Inr None
                else (let sector = info_get info ''sector'' (PyStr ''Technology'');
                          benchmark_pe = benchmark_of sector
                      in case py_mul eps benchmark_pe of
                           Inl e \<Rightarrow> Inl e
                         | Inr fair_value \<Rightarrow> Inr (Some fair_value))))"

definition calculate_pe_valuation :: "info \<Rightarrow> real option" where
  "calculate_pe_valuation info =
     (case calculate_pe_body info of Inl e \<Rightarrow> None | Inr r \<Rightarrow> r)"

text \<open>
  Graham's number. \<^verbatim>\<open>a or b or c or d\<close> evaluates from the left and stops at the
  first true operand. In \<^verbatim>\<open>22.5 * eps * book_value_per_share\<close> first the EPS and then
  the book value is converted to a float.
\<close>

definition calculate_graham_body :: "info \<Rightarrow> error + real option" where
  "calculate_graham_body info =
     (let eps = info_get info ''trailingEps'' (PyNum 0);
          book_value_per_share = info_get info ''bookValue'' (PyNum 0)
      in case (if \<not> truthy eps then Inr True
               else if \<not> truthy book_value_per_share then Inr True
               else (case py_le eps 0 of
                       Inl e \<Rightarrow> Inl e
                     | Inr b \<Rightarrow> if b then Inr True else py_le book_value_per_share 0)) of
           Inl e \<Rightarrow> Inl e
         | Inr missing \<Rightarrow>
             if missing then Inr None
             else (case to_float eps of
                     Inl e \<Rightarrow> Inl e
                   | Inr e \<Rightarrow>
                       (case to_float book_value_per_share of
                          Inl e \<Rightarrow> Inl e
                        | Inr b \<Rightarrow> Inr (Some (sqrt (22.5 * e * b))))))"

definition calculate_graham_number :: "info \<Rightarrow> real option" where
  "calculate_graham_number info =
     (case calculate_graham_body info of Inl e \<Rightarrow> None | Inr r \<Rightarrow> r)"

text \<open>
  The PEG ratio. \<^verbatim>\<open>growth_rate * 100\<close> stays an int for an int growth. The division
  converts an int operand when the other one is a float; between two ints it is exact
  and raises when the quotient is too large for a float.
\<close>

fun py_times100 :: "pyval \<Rightarrow> pyval" where
  "py_times100 (PyNum x) = PyNum (x * 100)"
| "py_times100 (PyInt n) = PyInt (n * 100)"
| "py_times100 v = v"

fun py_truediv :: "pyval \<Rightarrow> pyval \<Rightarrow> error + real" where
  "py_truediv (PyNum p) (PyNum q) =
     (if q = 0 then Inl ZeroDivisionError else Inr (p / q))"
| "py_truediv (PyNum p) (PyInt m) =
     (if double_limit \<le> \<bar>real_of_int m\<bar> then Inl OverflowError
      else if m = 0 then Inl ZeroDivisionError
      else Inr (p / real_of_int m))"
| "py_truediv (PyInt n) (PyNum q) =
     (if double_limit \<le> \<bar>real_of_int n\<bar> then Inl OverflowError
      else if q = 0 then Inl ZeroDivisionError
      else Inr (real_of_int n / q))"
| "py_truediv (PyInt n) (PyInt m) =
     (if m = 0 then Inl ZeroDivisionError
      else if double_limit \<le> \<bar>real_of_int n / real_of_int m\<bar> then Inl OverflowError
      else Inr (real_of_int n / real_of_int m))"
| "py_truediv _ _ = Inl TypeError"

definition calculate_peg_body :: "info \<Rightarrow> error + real option" where
  "calculate_peg_body info =
     (let pe_ratio = info_get info ''trailingPE'' (PyNum 0);
          growth = info_get info ''earningsGrowth'' (PyNum 0)
      in case (if \<not> truthy pe_ratio then Inr True
               else if \<not> truthy growth then Inr True
               else py_le growth 0) of
           Inl e \<Rightarrow> Inl e
         | Inr missing \<Rightarrow>
             if missing then Inr None
             else (let growth_rate_pct = py_times100 growth in
                   case py_truediv pe_ratio growth_rate_pct of
                     Inl e \<Rightarrow> Inl e
                   | Inr peg_ratio \<Rightarrow> Inr (Some peg_ratio)))"

definition calculate_peg_ratio :: "info \<Rightarrow> real option" where
  "calculate_peg_ratio info =
     (case calculate_peg_body info of Inl e \<Rightarrow> None | Inr r \<Rightarrow> r)"

section \<open>company_search.py: ProfitCompoundingAnalyzer\<close>

record analysis =
  is_compounding :: "bool option"
  compounding_score :: int
  revenue_growth :: "fl option"
  profit_growth :: "fl option"
  roe_trend :: "fl option"
  retained_earnings_growth :: "fl option"
  debt_management :: "pyval option"
  efficiency_metrics :: "(string \<times> real) list"
  compounding_factors :: "factor list"
  warnings :: "string list"

definition get_fallback_analysis :: analysis where
  "get_fallback_analysis =
     \<lparr> is_compounding = None, compounding_score = 0, revenue_growth = None,
       profit_growth = None, roe_trend = None, retained_earnings_growth = None,
       debt_management = None, efficiency_metrics = [], compounding_factors = [],
       warnings = [''Insufficient financial data for compounding analysis''] \<rparr>"

definition initial_analysis :: analysis where
  "initial_analysis =
     \<lparr> is_compounding = Some False, compounding_score = 0, revenue_growth = None,
       profit_growth = None, roe_trend = None, retained_earnings_growth = None,
       debt_management = None, efficiency_metrics = [], compounding_factors = [],
       warnings = [] \<rparr>"

text \<open>\<^verbatim>\<open>frame.loc[key].dropna()\<close>\<close>

definition loc_dropna :: "frame \<Rightarrow> string \<Rightarrow> series" where
  "loc_dropna f k = filter (\<lambda>(d, v). v \<noteq> NaN) (loc f k)"

text \<open>\<^verbatim>\<open>series.pct_change().dropna().mean()\<close>\<close>

definition avg_growth :: "series \<Rightarrow> fl" where
  "avg_growth s = fl_mean (dropna (pct_change (map snd s)))"

text \<open>
  The loops over a list of aliases stop at the first one that labels a row of the
  frame.
\<close>

definition first_key :: "string list \<Rightarrow> frame \<Rightarrow> string option" where
  "first_key keys f = find (\<lambda>key. in_index key f) keys"

text \<open>1. Revenue growth.\<close>

definition revenue_step :: "frame \<Rightarrow> analysis \<Rightarrow> analysis" where
  "revenue_step financials a =
     (if in_index ''Total Revenue'' financials then
        (let revenues = loc_dropna financials ''Total Revenue'' in
         if length revenues \<ge> 3 then
           (let avg_revenue_growth = avg_growth revenues;
                a1 = a\<lparr>revenue_growth := Some (fl_mul avg_revenue_growth (Fin 100))\<rparr>
            in if fl_less (Fin 0.05) avg_revenue_growth then
                 a1\<lparr>compounding_score := compounding_score a1 + 2,
                    compounding_factors := compounding_factors a1 @
                      [Fmt ''Strong revenue growth ('' (fl_mul avg_revenue_growth (Fin 100)) ''% avg)'']\<rparr>
               else if fl_less (Fin 0) avg_revenue_growth then
                 a1\<lparr>compounding_score := compounding_score a1 + 1,
                    compounding_factors := compounding_factors a1 @ [Plain ''Positive revenue growth'']\<rparr>
               else a1\<lparr>warnings := warnings a1 @ [''Declining revenue trend'']\<rparr>)
         else a)
      else a)"

text \<open>2. Net income growth.\<close>

definition net_income_keys :: "string list" where
  "net_income_keys =
     [''Net Income'', ''Net Income Common Stockholders'',
      ''Net Income Applicable To Common Shares'']"

definition net_income_of :: "frame \<Rightarrow> series option" where
  "net_income_of financials =
     (case first_key net_income_keys financials of
        None \<Rightarrow> None
      | Some key \<Rightarrow> Some (loc_dropna financials key))"

definition profit_step :: "series option \<Rightarrow> analysis \<Rightarrow> analysis" where
  "profit_step net_income a =
     (case net_income of
        None \<Rightarrow> a
      | Some ni \<Rightarrow>
          if length ni \<ge> 3 then
            (let avg_profit_growth = avg_growth ni;
                 a1 = a\<lparr>profit_growth := Some (fl_mul avg_profit_growth (Fin 100))\<rparr>
             in if fl_less (Fin 0.10) avg_profit_growth then
                  a1\<lparr>compounding_score := compounding_score a1 + 3,
                     compounding_factors := compounding_factors a1 @
                       [Fmt ''Excellent profit growth ('' (fl_mul avg_profit_growth (Fin 100)) ''% avg)'']\<rparr>
                else if fl_less (Fin 0.05) avg_profit_growth then
                  a1\<lparr>compounding_score := compounding_score a1 + 2,
                     compounding_factors := compounding_factors a1 @ [Plain ''Good profit growth'']\<rparr>
                else if fl_less (Fin 0) avg_profit_growth then
                  a1\<lparr>compounding_score := compounding_score a1 + 1,
                     compounding_factors := compounding_factors a1 @ [Plain ''Moderate profit growth'']\<rparr>
                else a1\<lparr>warnings := warnings a1 @ [''Declining profitability'']\<rparr>)
          else a)"

text \<open>
  3. Return on equity, over the dates that the equity and the net income have in
  common. On frames with distinct labels nothing in this block raises, so its
  \<^verbatim>\<open>except: pass\<close> has no branch here.
\<close>

definition stockholder_equity_keys :: "string list" where
  "stockholder_equity_keys =
     [''Stockholders Equity'', ''Total Stockholder Equity'', ''Total Equity'']"

definition common_dates :: "series \<Rightarrow> series \<Rightarrow> nat list" where
  "common_dates stockholder_equity net_income =
     filter (\<lambda>d. d \<in> set (map fst net_income)) (map fst stockholder_equity)"

definition roe_values_of :: "series \<Rightarrow> series \<Rightarrow> fl list" where
  "roe_values_of stockholder_equity net_income =
     concat (map (\<lambda>date.
        case (map_of stockholder_equity date, map_of net_income date) of
          (Some e, Some n) \<Rightarrow>
            if fl_less (Fin 0) e then [fl_mul (fl_div n e) (Fin 100)] else []
        | _ \<Rightarrow> [])
       (common_dates stockholder_equity net_income))"

definition roe_step :: "frame \<Rightarrow> series option \<Rightarrow> analysis \<Rightarrow> analysis" where
  "roe_step balance_sheet net_income a =
     (if \<not> frame_empty balance_sheet then
        (case (first_key stockholder_equity_keys balance_sheet, net_income) of
           (Some key, Some ni) \<Rightarrow>
             (let stockholder_equity = loc_dropna balance_sheet key in
              if length (common_dates stockholder_equity ni) \<ge> 2 then
                (let roe_values = roe_values_of stockholder_equity ni in
                 if roe_values \<noteq> [] then
                   (let avg_roe = fl_div (fl_sum roe_values) (Fin (real (length roe_values)));
                        a1 = a\<lparr>roe_trend := Some avg_roe\<rparr>
                    in if fl_less (Fin 15) avg_roe then
                         a1\<lparr>compounding_score := compounding_score a1 + 2,
                            compounding_factors := compounding_factors a1 @
                              [Fmt ''High ROE ('' avg_roe ''%)'']\<rparr>
                       else if fl_less (Fin 10) avg_roe then
                         a1\<lparr>compounding_score := compounding_score a1 + 1,
                            compounding_factors := compounding_factors a1 @ [Plain ''Good ROE'']\<rparr>
                       else if fl_less avg_roe (Fin 5) then
                         a1\<lparr>warnings := warnings a1 @ [''Low return on equity'']\<rparr>
                       else a1)
                 else a)
              else a)
         | _ \<Rightarrow> a)
      else a)"

text \<open>4. Retained earnings: only the first alias that is present is looked at.\<close>

definition retained_earnings_keys :: "string list" where
  "retained_earnings_keys = [''Retained Earnings'', ''Accumulated Retained Earnings'']"

definition retained_step :: "frame \<Rightarrow> analysis \<Rightarrow> analysis" where
  "retained_step balance_sheet a =
     (if \<not> frame_empty balance_sheet then
        (case first_key retained_earnings_keys balance_sheet of
           None \<Rightarrow> a
         | Some key \<Rightarrow>
             (let retained_earnings = loc_dropna balance_sheet key in
              if length retained_earnings \<ge> 3 then
                (let avg_re_growth = avg_growth retained_earnings;
                     a1 = a\<lparr>retained_earnings_growth := Some (fl_mul avg_re_growth (Fin 100))\<rparr>
                 in if fl_less (Fin 0.05) avg_re_growth then
                      a1\<lparr>compounding_score := compounding_score a1 + 1,
                         compounding_factors := compounding_factors a1 @
                           [Plain ''Growing retained earnings'']\<rparr>
                    else if fl_less avg_re_growth (Fin 0) then
                      a1\<lparr>warnings := warnings a1 @ [''Declining retained earnings'']\<rparr>
                    else a1)
              else a))
      else a)"

text \<open>5. Debt management.\<close>

definition debt_step :: "info \<Rightarrow> analysis \<Rightarrow> error + analysis" where
  "debt_step info a =
     (let debt_to_equity = info_get info ''debtToEquity'' (PyNum 0) in
      if truthy debt_to_equity then
        (let a1 = a\<lparr>debt_management := Some debt_to_equity\<rparr> in
         case py_lt debt_to_equity 0.3 of
           Inl e \<Rightarrow> Inl e
         | Inr low \<Rightarrow>
             if low then
               Inr (a1\<lparr>compounding_score := compounding_score a1 + 1,
                       compounding_factors := compounding_factors a1 @
                         [Plain ''Conservative debt management'']\<rparr>)
             else (case py_gt debt_to_equity 1.0 of
                     Inl e \<Rightarrow> Inl e
                   | Inr high \<Rightarrow>
                       if high then
                         Inr (a1\<lparr>warnings := warnings a1 @ [''High debt levels may limit growth'']\<rparr>)
                       else Inr a1))
      else Inr a)"

text \<open>
  6. Efficiency: the margin in percent is stored before the comparison. For a string the
  product is a string and the comparison raises, so only a number is ever kept.
\<close>

definition margin_step :: "info \<Rightarrow> analysis \<Rightarrow> error + analysis" where
  "margin_step info a =
     (let profit_margin = info_get info ''profitMargins'' (PyNum 0) in
      if truthy profit_margin then
        (let a1 = a\<lparr>efficiency_metrics := efficiency_metrics a @
                      [(''profit_margin'', num_of profit_margin * 100)]\<rparr> in
         case py_gt profit_margin 0.15 of
           Inl e \<Rightarrow> Inl e
         | Inr high \<Rightarrow>
             if high then
               Inr (a1\<lparr>compounding_score := compounding_score a1 + 1,
                       compounding_factors := compounding_factors a1 @ [Plain ''High profit margins'']\<rparr>)
             else Inr a1)
      else Inr a)"

text \<open>7. The verdict.\<close>

definition verdict_step :: "analysis \<Rightarrow> analysis" where
  "verdict_step a =
     (if compounding_score a \<ge> 5 then a\<lparr>is_compounding := Some True\<rparr> else a)"

text \<open>
  The body of the \<^verbatim>\<open>try\<close> block of \<^verbatim>\<open>analyze_profit_compounding\<close>; \<open>Inr\<close> of the
  fallback is the early return on empty statements.
\<close>

definition analyze_body :: "frame \<Rightarrow> frame \<Rightarrow> info \<Rightarrow> error + analysis" where
  "analyze_body financials balance_sheet info =
     (if frame_empty financials then Inr get_fallback_analysis
      else
        (let net_income = net_income_of financials;
             a1 = revenue_step financials initial_analysis;
             a2 = profit_step net_income a1;
             a3 = roe_step balance_sheet net_income a2;
             a4 = retained_step balance_sheet a3
         in case debt_step info a4 of
              Inl e \<Rightarrow> Inl e
            | Inr a5 \<Rightarrow>
                (case margin_step info a5 of
                   Inl e \<Rightarrow> Inl e
                 | Inr a6 \<Rightarrow> Inr (verdict_step a6))))"

text \<open>\<^verbatim>\<open>except Exception as e: return self._get_fallback_analysis()\<close>\<close>

definition analyze_profit_compounding :: "frame \<Rightarrow> frame \<Rightarrow> info \<Rightarrow> analysis" where
  "analyze_profit_compounding financials balance_sheet info =
     (case analyze_body financials balance_sheet info of
        Inl e \<Rightarrow> get_fallback_analysis
      | Inr a \<Rightarrow> a)"

section \<open>company_search.py: CompanySearcher\<close>

text \<open>
  Strings are lists of bytes; \<^verbatim>\<open>lower\<close>, \<^verbatim>\<open>upper\<close> and \<^verbatim>\<open>strip\<close> are modelled on
  ASCII text, where they change the 26 letters and remove the ten ASCII white-space
  characters from both ends.
\<close>

definition lower_char :: "char \<Rightarrow> char" where
  "lower_char c =
     (case map_of (zip ''ABCDEFGHIJKLMNOPQRSTUVWXYZ'' ''abcdefghijklmnopqrstuvwxyz'') c of
        None \<Rightarrow> c | Some d \<Rightarrow> d)"

definition upper_char :: "char \<Rightarrow> char" where
  "upper_char c =
     (case map_of (zip ''abcdefghijklmnopqrstuvwxyz'' ''ABCDEFGHIJKLMNOPQRSTUVWXYZ'') c of
        None \<Rightarrow> c | Some d \<Rightarrow> d)"

definition lower :: "string \<Rightarrow> string" where
  "lower s = map lower_char s"

definition upper :: "string \<Rightarrow> string" where
  "upper s = map upper_char s"

definition is_space :: "char \<Rightarrow> bool" where
  "is_space c =
     (c \<in> set [CHR 0x09, CHR 0x0A, CHR 0x0B, CHR 0x0C, CHR 0x0D,
               CHR 0x1C, CHR 0x1D, CHR 0x1E, CHR 0x1F, CHR 0x20])"

definition strip :: "string \<Rightarrow> string" where
  "strip s = rev (dropWhile is_space (rev (dropWhile is_space s)))"

text \<open>\<^verbatim>\<open>a in b\<close> on strings: \<open>a\<close> occurs in \<open>b\<close> as a contiguous piece.\<close>

fun starts_with :: "string \<Rightarrow> string \<Rightarrow> bool" where
  "starts_with [] s = True"
| "starts_with (x # xs) [] = False"
| "starts_with (x # xs) (y # ys) = (x = y \<and> starts_with xs ys)"

fun py_in :: "string \<Rightarrow> string \<Rightarrow> bool" where
  "py_in a [] = (a = [])"
| "py_in a (c # cs) = (starts_with a (c # cs) \<or> py_in a cs)"

text \<open>
  The two name tables, in the order of the dict literals. The literal of the first one
  writes the key \<^verbatim>\<open>wipro\<close> twice with the same symbol; a dict keeps one entry for it,
  at the place of the first.
\<close>

definition indian_exchanges :: "string list" where
  "indian_exchanges = [''.NS'', ''.BO'']"

definition indian_companies :: "(string \<times> string) list" where
  "indian_companies =
     [(''tcs'', ''TCS.NS''),
      (''tata consultancy services'', ''TCS.NS''),
      (''infosys'', ''INFY.NS''),
      (''wipro'', ''WIPRO.NS''),
      (''hcl technologies'', ''HCLTECH.NS''),
      (''tech mahindra'', ''TECHM.NS''),
      (''hdfc bank'', ''HDFCBANK.NS''),
      (''icici bank'', ''ICICIBANK.NS''),
      (''state bank of india'', ''SBIN.NS''),
      (''sbi'', ''SBIN.NS''),
      (''axis bank'', ''AXISBANK.NS''),
      (''kotak mahindra bank'', ''KOTAKBANK.NS''),
      (''bajaj finance'', ''BAJFINANCE.NS''),
      (''hdfc'', ''HDFC.NS''),
      (''tata motors'', ''TATAMOTORS.NS''),
      (''maruti suzuki'', ''MARUTI.NS''),
      (''mahindra'', ''M&M.NS''),
      (''bajaj auto'', ''BAJAJ-AUTO.NS''),
      (''hero motocorp'', ''HEROMOTOCO.NS''),
      (''tvs motor'', ''TVSMOTOR.NS''),
      (''sun pharma'', ''SUNPHARMA.NS''),
      (''dr reddy'', ''DRREDDY.NS''),
      (''cipla'', ''CIPLA.NS''),
      (''lupin'', ''LUPIN.NS''),
      (''aurobindo pharma'', ''AUROPHARMA.NS''),
      ((''divi'' @ [CHR 0x27] @ ''s laboratories''), ''DIVISLAB.NS''),
      (''reliance'', ''RELIANCE.NS''),
      (''reliance industries'', ''RELIANCE.NS''),
      (''oil and natural gas corporation'', ''ONGC.NS''),
      (''ongc'', ''ONGC.NS''),
      (''indian oil'', ''IOC.NS''),
      (''bharat petroleum'', ''BPCL.NS''),
      (''hindustan petroleum'', ''HINDPETRO.NS''),
      (''tata steel'', ''TATASTEEL.NS''),
      (''jsw steel'', ''JSWSTEEL.NS''),
      (''hindalco'', ''HINDALCO.NS''),
      (''vedanta'', ''VEDL.NS''),
      (''coal india'', ''COALINDIA.NS''),
      (''nmdc'', ''NMDC.NS''),
      (''hindustan unilever'', ''HINDUNILVR.NS''),
      (''hul'', ''HINDUNILVR.NS''),
      (''itc'', ''ITC.NS''),
      (''nestle india'', ''NESTLEIND.NS''),
      (''britannia'', ''BRITANNIA.NS''),
      (''godrej consumer'', ''GODREJCP.NS''),
      (''bharti airtel'', ''BHARTIARTL.NS''),
      (''airtel'', ''BHARTIARTL.NS''),
      (''vodafone idea'', ''IDEA.NS''),
      (''jio'', ''RJIO.NS''),
      (''ntpc'', ''NTPC.NS''),
      (''power grid'', ''POWERGRID.NS''),
      (''larsen toubro'', ''LT.NS''),
      (''l&t'', ''LT.NS''),
      (''ultratech cement'', ''ULTRACEMCO.NS''),
      (''grasim'', ''GRASIM.NS''),
      (''adani enterprises'', ''ADANIENT.NS''),
      (''asian paints'', ''ASIANPAINT.NS''),
      (''bajaj finserv'', ''BAJAJFINSV.NS''),
      (''titan'', ''TITAN.NS'')]"

definition us_companies :: "(string \<times> string) list" where
  "us_companies =
     [(''apple'', ''AAPL''),
      (''microsoft'', ''MSFT''),
      (''google'', ''GOOGL''),
      (''alphabet'', ''GOOGL''),
      (''amazon'', ''AMZN''),
      (''tesla'', ''TSLA''),
      (''meta'', ''META''),
      (''facebook'', ''META''),
      (''netflix'', ''NFLX''),
      (''nvidia'', ''NVDA''),
      (''intel'', ''INTC''),
      (''amd'', ''AMD''),
      (''oracle'', ''ORCL''),
      (''salesforce'', ''CRM''),
      (''adobe'', ''ADBE''),
      (''paypal'', ''PYPL''),
      (''visa'', ''V''),
      (''mastercard'', ''MA''),
      (''jpmorgan'', ''JPM''),
      (''jp morgan'', ''JPM''),
      (''bank of america'', ''BAC''),
      (''wells fargo'', ''WFC''),
      (''goldman sachs'', ''GS''),
      (''morgan stanley'', ''MS''),
      (''berkshire hathaway'', ''BRK-B''),
      (''johnson & johnson'', ''JNJ''),
      (''pfizer'', ''PFE''),
      (''coca cola'', ''KO''),
      (''pepsi'', ''PEP''),
      (''walmart'', ''WMT''),
      (''home depot'', ''HD''),
      (''disney'', ''DIS''),
      (''boeing'', ''BA''),
      (''caterpillar'', ''CAT''),
      (''exxon mobil'', ''XOM''),
      (''chevron'', ''CVX'')]"

text \<open>The loops over a table return the symbol of the first entry that matches.\<close>

fun partial_match :: "string \<Rightarrow> (string \<times> string) list \<Rightarrow> string option" where
  "partial_match query_lower [] = None"
| "partial_match query_lower ((name, symbol) # rest) =
     (if py_in query_lower name \<or> py_in name query_lower then Some symbol
      else partial_match query_lower rest)"

fun probe_exchanges :: "(string \<Rightarrow> bool) \<Rightarrow> string \<Rightarrow> string list \<Rightarrow> string option" where
  "probe_exchanges is_valid_symbol query_upper [] = None"
| "probe_exchanges is_valid_symbol query_upper (exchange # rest) =
     (let test_symbol = query_upper @ exchange in
      if is_valid_symbol test_symbol then Some test_symbol
      else probe_exchanges is_valid_symbol query_upper rest)"

text \<open>
  \<^verbatim>\<open>_is_valid_symbol\<close> asks the provider over the network and returns \<^verbatim>\<open>False\<close> on any
  failure; it is a parameter of the model.
\<close>

definition search_company :: "(string \<Rightarrow> bool) \<Rightarrow> string \<Rightarrow> string" where
  "search_company is_valid_symbol query =
     (let query_lower = strip (lower query) in
      if is_valid_symbol (upper query) then upper query
      else case map_of indian_companies query_lower of
        Some symbol \<Rightarrow> symbol
      | None \<Rightarrow>
      (case map_of us_companies query_lower of
        Some symbol \<Rightarrow> symbol
      | None \<Rightarrow>
      (case partial_match query_lower indian_companies of
        Some symbol \<Rightarrow> symbol
      | None \<Rightarrow>
      (case partial_match query_lower us_companies of
        Some symbol \<Rightarrow> symbol
      | None \<Rightarrow>
      (case probe_exchanges is_valid_symbol (upper query) indian_exchanges of
        Some test_symbol \<Rightarrow> test_symbol
      | None \<Rightarrow> upper query)))))"

section \<open>Sample inputs\<close>

text \<open>
  A price history of 60 bars: a steady rise for 46 bars, then one rise by 1, one fall by
  3 and a flat end, so that the last close stays above both moving averages while the
  14-bar window holds three times as much loss as gain.
\<close>

definition uptrend_history :: hist_data where
  "uptrend_history =
     [100, 102, 104, 106, 108, 110, 112, 114, 116, 118,
      120, 122, 124, 126, 128, 130, 132, 134, 136, 138,
      140, 142, 144, 146, 148, 150, 152, 154, 156, 158,
      160, 162, 164, 166, 168, 170, 172, 174, 176, 178,
      180, 182, 184, 186, 188, 190, 191, 188, 188, 188,
      188, 188, 188, 188, 188, 188, 188, 188, 188, 188]"

definition scenario_info :: info where
  "scenario_info =
     Map.empty(''trailingPE'' \<mapsto> PyNum 12, ''debtToEquity'' \<mapsto> PyNum 0.2,
               ''dividendYield'' \<mapsto> PyNum 0.04, ''revenueGrowth'' \<mapsto> PyNum 0.08)"

text \<open>A profile in which the provider has put the text \<^verbatim>\<open>Infinity\<close> for several ratios.\<close>

definition malformed_info :: info where
  "malformed_info =
     Map.empty(''trailingPE'' \<mapsto> PyStr ''Infinity'', ''trailingEps'' \<mapsto> PyStr ''Infinity'',
               ''bookValue'' \<mapsto> PyNum 10, ''earningsGrowth'' \<mapsto> PyStr ''Infinity'',
               ''sharesOutstanding'' \<mapsto> PyStr ''Infinity'')"

text \<open>A profile whose share count is an int far beyond the range of a float.\<close>

definition oversized_shares_info :: info where
  "oversized_shares_info = Map.empty(''sharesOutstanding'' \<mapsto> PyInt (10 ^ 400))"

definition sample_cash_flow :: frame where
  "sample_cash_flow =
     \<lparr> columns = [2024, 2023], rows = [(''Free Cash Flow'', [Fin 100, Fin 90])] \<rparr>"

definition sample_financials :: frame where
  "sample_financials =
     \<lparr> columns = [2021, 2022, 2023],
       rows = [(''Total Revenue'', [Fin 100, Fin 110, Fin 121]),
               (''Net Income'', [Fin 10, Fin 12, Fin 15])] \<rparr>"

definition sample_balance_sheet :: frame where
  "sample_balance_sheet =
     \<lparr> columns = [2021, 2022, 2023],
       rows = [(''Stockholders Equity'', [Fin 50, Fin 50, Fin 50]),
               (''Retained Earnings'', [Fin 20, Fin 22, Fin 25])] \<rparr>"

definition sample_profile :: info where
  "sample_profile = Map.empty(''debtToEquity'' \<mapsto> PyNum 0.2, ''profitMargins'' \<mapsto> PyNum 0.2)"

definition no_statements :: frame where
  "no_statements = \<lparr> columns = [], rows = [] \<rparr>"

text \<open>Two cash flows near the top of the range of a float.\<close>

definition huge_cash_flow :: frame where
  "huge_cash_flow =
     \<lparr> columns = [2024], rows = [(''Free Cash Flow'', [Fin (2 ^ 1023)])] \<rparr>"

definition larger_cash_flow :: frame where
  "larger_cash_flow =
     \<lparr> columns = [2024], rows = [(''Free Cash Flow'', [Fin (3 * 2 ^ 1022)])] \<rparr>"

definition doubled_cash_flow :: frame where
  "doubled_cash_flow =
     \<lparr> columns = [2024, 2023], rows = [(''Free Cash Flow'', [Fin 200, Fin 90])] \<rparr>"

definition shares_info :: info where
  "shares_info = Map.empty(''sharesOutstanding'' \<mapsto> PyNum 10)"

text \<open>Fourteen bars that never fall and sometimes rise.\<close>

definition rising_history :: hist_data where
  "rising_history = [100, 100, 101, 101, 102, 103, 103, 104, 105, 105, 106, 107, 108, 109]"

section \<open>Properties of the recommendation rules\<close>

subsection \<open>The P/E rule\<close>

text \<open>
  Claim C5, as amended. When the trailing P/E is a number other than zero, the P/E rule
  gives +2 with the factor "Undervalued" below 15, +1 with "Fairly valued" from 15 up to
  but excluding 25, and -1 with "Overvalued" above 25. When the field is absent,
  \<^verbatim>\<open>None\<close> or zero, the rule gives 0 with the note that the P/E is not available: the
  rule tests the truth value of the field, so zero counts as missing.
\<close>

theorem pe_factor_rule:
  "(info ''trailingPE'' = Some (PyNum x) \<and> x \<noteq> 0 \<and> x < 15 \<longrightarrow>
      pe_factor info = Inr (2, Plain ''Undervalued (P/E < 15)'')) \<and>
   (info ''trailingPE'' = Some (PyNum x) \<and> 15 \<le> x \<and> x < 25 \<longrightarrow>
      pe_factor info = Inr (1, Plain ''Fairly valued (P/E 15-25)'')) \<and>
   (info ''trailingPE'' = Some (PyNum x) \<and> 25 < x \<longrightarrow>
      pe_factor info = Inr (- 1, Plain ''Overvalued (P/E > 25)'')) \<and>
   (info ''trailingPE'' = None \<or> info ''trailingPE'' = Some PyNone \<or>
    info ''trailingPE'' = Some (PyNum 0) \<longrightarrow>
      pe_factor info = Inr (0, Plain ''P/E data not available''))"
  by (auto simp add: pe_factor_def info_get_def)

theorem pe_factor_rule_witness:
  "pe_factor (Map.empty(''trailingPE'' \<mapsto> PyNum 12)) = Inr (2, Plain ''Undervalued (P/E < 15)'') \<and>
   pe_factor (Map.empty(''trailingPE'' \<mapsto> PyNum 20)) = Inr (1, Plain ''Fairly valued (P/E 15-25)'') \<and>
   pe_factor (Map.empty(''trailingPE'' \<mapsto> PyNum 30)) = Inr (- 1, Plain ''Overvalued (P/E > 25)'') \<and>
   pe_factor Map.empty = Inr (0, Plain ''P/E data not available'')"
  using pe_factor_rule [of "Map.empty(''trailingPE'' \<mapsto> PyNum 12)" 12]
        pe_factor_rule [of "Map.empty(''trailingPE'' \<mapsto> PyNum 20)" 20]
        pe_factor_rule [of "Map.empty(''trailingPE'' \<mapsto> PyNum 30)" 30]
        pe_factor_rule [of Map.empty 0]
  by simp

text \<open>
  A trailing P/E that is present and zero is below 15, yet the rule reports it as not
  available and adds nothing.
\<close>

theorem pe_factor_counterexample:
  "pe_factor (Map.empty(''trailingPE'' \<mapsto> PyNum 0)) = Inr (0, Plain ''P/E data not available'')
   \<and> pe_factor (Map.empty(''trailingPE'' \<mapsto> PyNum 0)) \<noteq> Inr (2, Plain ''Undervalued (P/E < 15)'')"
  by (simp add: pe_factor_def info_get_def)

text \<open>
  At exactly 25 the rule takes its last branch, whose own label reads "P/E > 25".
\<close>

lemma pe_factor_at_25:
  "pe_factor (Map.empty(''trailingPE'' \<mapsto> PyNum 25)) = Inr (- 1, Plain ''Overvalued (P/E > 25)'')"
  by (simp add: pe_factor_def info_get_def)

subsection \<open>The leverage rule\<close>

text \<open>
  Claim C6, as amended. When debt to equity is a number other than zero, the leverage
  rule gives +1 below 0.3, -1 above 1.0 and 0 in between. When the field is absent,
  \<^verbatim>\<open>None\<close> or zero, the rule gives 0 with the note that debt information is not
  available: a debt-to-equity of zero is treated like a missing field.
\<close>

theorem debt_factor_rule:
  "(info ''debtToEquity'' = Some (PyNum x) \<and> x \<noteq> 0 \<and> x < 0.3 \<longrightarrow>
      debt_factor info = Inr (1, Plain ''Strong balance sheet (low debt)'')) \<and>
   (info ''debtToEquity'' = Some (PyNum x) \<and> 1.0 < x \<longrightarrow>
      debt_factor info = Inr (- 1, Plain ''High debt levels'')) \<and>
   (info ''debtToEquity'' = Some (PyNum x) \<and> 0.3 \<le> x \<and> x \<le> 1.0 \<longrightarrow>
      debt_factor info = Inr (0, Plain ''Moderate debt levels'')) \<and>
   (info ''debtToEquity'' = None \<or> info ''debtToEquity'' = Some PyNone \<or>
    info ''debtToEquity'' = Some (PyNum 0) \<longrightarrow>
      debt_factor info = Inr (0, Plain ''Debt information not available''))"
  by (auto simp add: debt_factor_def info_get_def)

theorem debt_factor_rule_witness:
  "debt_factor (Map.empty(''debtToEquity'' \<mapsto> PyNum 0.2)) = Inr (1, Plain ''Strong balance sheet (low debt)'') \<and>
   debt_factor (Map.empty(''debtToEquity'' \<mapsto> PyNum 1.5)) = Inr (- 1, Plain ''High debt levels'') \<and>
   debt_factor (Map.empty(''debtToEquity'' \<mapsto> PyNum 0.5)) = Inr (0, Plain ''Moderate debt levels'') \<and>
   debt_factor Map.empty = Inr (0, Plain ''Debt information not available'')"
  using debt_factor_rule [of "Map.empty(''debtToEquity'' \<mapsto> PyNum 0.2)" "0.2"]
        debt_factor_rule [of "Map.empty(''debtToEquity'' \<mapsto> PyNum 1.5)" "1.5"]
        debt_factor_rule [of "Map.empty(''debtToEquity'' \<mapsto> PyNum 0.5)" "0.5"]
        debt_factor_rule [of Map.empty 0]
  by simp

text \<open>
  A debt-to-equity that is present and zero is below 0.3, yet the rule reports the debt
  information as not available and adds nothing.
\<close>

theorem debt_factor_counterexample:
  "debt_factor (Map.empty(''debtToEquity'' \<mapsto> PyNum 0)) = Inr (0, Plain ''Debt information not available'')
   \<and> debt_factor (Map.empty(''debtToEquity'' \<mapsto> PyNum 0)) \<noteq> Inr (1, Plain ''Strong balance sheet (low debt)'')"
  by (simp add: debt_factor_def info_get_def)

subsection \<open>When the scoring raises\<close>

text \<open>
  A rule raises when its field holds a non-empty text: the truth test lets it pass and
  the comparison with a number fails. The dividend and the revenue rule also raise when
  the field holds an int so large that its hundredfold cannot be printed as a float. The
  scoring raises exactly when one of its four rules over the profile does.
\<close>

lemma double_limit_pos: "0 < double_limit"
  by (simp add: double_limit_def)

lemma pe_factor_raises:
  "(\<exists>e. pe_factor info = Inl e) \<longleftrightarrow> (\<exists>s. s \<noteq> [] \<and> info ''trailingPE'' = Some (PyStr s))"
  apply (cases "info ''trailingPE''")
   apply (simp add: pe_factor_def info_get_def)
  subgoal for v
    by (cases v) (auto simp add: pe_factor_def info_get_def Let_def)
  done

lemma debt_factor_raises:
  "(\<exists>e. debt_factor info = Inl e) \<longleftrightarrow> (\<exists>s. s \<noteq> [] \<and> info ''debtToEquity'' = Some (PyStr s))"
  apply (cases "info ''debtToEquity''")
   apply (simp add: debt_factor_def info_get_def)
  subgoal for v
    by (cases v) (auto simp add: debt_factor_def info_get_def Let_def)
  done

lemma dividend_factor_raises:
  "(\<exists>e. dividend_factor info = Inl e) \<longleftrightarrow>
     (\<exists>s. s \<noteq> [] \<and> info ''dividendYield'' = Some (PyStr s)) \<or>
     (\<exists>n. info ''dividendYield'' = Some (PyInt n) \<and> double_limit \<le> \<bar>real_of_int n * 100\<bar>)"
  apply (cases "info ''dividendYield''")
   apply (simp add: dividend_factor_def info_get_def)
  subgoal for v
    using double_limit_pos
    by (cases v) (auto simp add: dividend_factor_def info_get_def Let_def)
  done

lemma revenue_factor_raises:
  "(\<exists>e. revenue_factor info = Inl e) \<longleftrightarrow>
     (\<exists>s. s \<noteq> [] \<and> info ''revenueGrowth'' = Some (PyStr s)) \<or>
     (\<exists>n. info ''revenueGrowth'' = Some (PyInt n) \<and> double_limit \<le> \<bar>real_of_int n * 100\<bar>)"
  apply (cases "info ''revenueGrowth''")
   apply (simp add: revenue_factor_def info_get_def)
  subgoal for v
    using double_limit_pos
    by (cases v) (auto simp add: revenue_factor_def info_get_def Let_def)
  done

lemma recommendation_raises:
  "(\<exists>e. get_recommendation_body info hist = Inl e) \<longleftrightarrow>
     (\<exists>s. s \<noteq> [] \<and> info ''trailingPE'' = Some (PyStr s)) \<or>
     (\<exists>s. s \<noteq> [] \<and> info ''debtToEquity'' = Some (PyStr s)) \<or>
     (\<exists>s. s \<noteq> [] \<and> info ''dividendYield'' = Some (PyStr s)) \<or>
     (\<exists>n. info ''dividendYield'' = Some (PyInt n) \<and> double_limit \<le> \<bar>real_of_int n * 100\<bar>) \<or>
     (\<exists>s. s \<noteq> [] \<and> info ''revenueGrowth'' = Some (PyStr s)) \<or>
     (\<exists>n. info ''revenueGrowth'' = Some (PyInt n) \<and> double_limit \<le> \<bar>real_of_int n * 100\<bar>)"
proof -
  have "(\<exists>e. get_recommendation_body info hist = Inl e) \<longleftrightarrow>
      (\<exists>e. pe_factor info = Inl e) \<or> (\<exists>e. debt_factor info = Inl e) \<or>
      (\<exists>e. dividend_factor info = Inl e) \<or> (\<exists>e. revenue_factor info = Inl e)"
    by (cases "pe_factor info"; cases "debt_factor info"; cases "dividend_factor info";
        cases "revenue_factor info")
       (auto simp add: get_recommendation_body_def Let_def split: prod.splits)
  then show ?thesis
    unfolding pe_factor_raises debt_factor_raises dividend_factor_raises revenue_factor_raises
    by blast
qed

subsection \<open>Risk on an empty price history\<close>

text \<open>
  Claim C10, as amended. When the price history is empty the annualized volatility is
  taken to be 0, and for every profile on which the scoring raises no error (none of
  trailing P/E, debt to equity, dividend yield and revenue growth holds a non-empty
  text, and neither dividend yield nor revenue growth holds an int too large to print as
  a float) the risk assessment has the label "Low" with the volatility 0; on the other
  profiles the fail-safe result reports the risk assessment as unavailable.
\<close>

theorem empty_history_low_risk:
  "volatility [] = Fin 0 \<and>
   risk_assessment (get_recommendation info []) =
     (if (\<exists>s. s \<noteq> [] \<and> info ''trailingPE'' = Some (PyStr s)) \<or>
         (\<exists>s. s \<noteq> [] \<and> info ''debtToEquity'' = Some (PyStr s)) \<or>
         (\<exists>s. s \<noteq> [] \<and> info ''dividendYield'' = Some (PyStr s)) \<or>
         (\<exists>n. info ''dividendYield'' = Some (PyInt n) \<and> double_limit \<le> \<bar>real_of_int n * 100\<bar>) \<or>
         (\<exists>s. s \<noteq> [] \<and> info ''revenueGrowth'' = Some (PyStr s)) \<or>
         (\<exists>n. info ''revenueGrowth'' = Some (PyInt n) \<and> double_limit \<le> \<bar>real_of_int n * 100\<bar>)
      then RiskUnavailable else Risk Low (Fin 0))"
proof (cases "get_recommendation_body info []")
  case (Inl e)
  then have "\<exists>e. get_recommendation_body info [] = Inl e" by blast
  then have "(\<exists>s. s \<noteq> [] \<and> info ''trailingPE'' = Some (PyStr s)) \<or>
         (\<exists>s. s \<noteq> [] \<and> info ''debtToEquity'' = Some (PyStr s)) \<or>
         (\<exists>s. s \<noteq> [] \<and> info ''dividendYield'' = Some (PyStr s)) \<or>
         (\<exists>n. info ''dividendYield'' = Some (PyInt n) \<and> double_limit \<le> \<bar>real_of_int n * 100\<bar>) \<or>
         (\<exists>s. s \<noteq> [] \<and> info ''revenueGrowth'' = Some (PyStr s)) \<or>
         (\<exists>n. info ''revenueGrowth'' = Some (PyInt n) \<and> double_limit \<le> \<bar>real_of_int n * 100\<bar>)"
    using recommendation_raises [of info "[]"] by blast
  then show ?thesis
    using Inl by (simp add: get_recommendation_def recommendation_fallback_def volatility_def)
next
  case (Inr r)
  then have "\<not> (\<exists>e. get_recommendation_body info [] = Inl e)" by simp
  then have ok: "\<not> ((\<exists>s. s \<noteq> [] \<and> info ''trailingPE'' = Some (PyStr s)) \<or>
         (\<exists>s. s \<noteq> [] \<and> info ''debtToEquity'' = Some (PyStr s)) \<or>
         (\<exists>s. s \<noteq> [] \<and> info ''dividendYield'' = Some (PyStr s)) \<or>
         (\<exists>n. info ''dividendYield'' = Some (PyInt n) \<and> double_limit \<le> \<bar>real_of_int n * 100\<bar>) \<or>
         (\<exists>s. s \<noteq> [] \<and> info ''revenueGrowth'' = Some (PyStr s)) \<or>
         (\<exists>n. info ''revenueGrowth'' = Some (PyInt n) \<and> double_limit \<le> \<bar>real_of_int n * 100\<bar>))"
    using recommendation_raises [of info "[]"] by blast
  have "risk_assessment r = Risk Low (Fin 0)"
    using Inr
    by (auto simp add: get_recommendation_body_def volatility_def risk_level_of_def Let_def
        split: sum.splits prod.splits)
  then have "risk_assessment (get_recommendation info []) = Risk Low (Fin 0)"
    using Inr by (simp add: get_recommendation_def)
  then show ?thesis using ok by (simp add: volatility_def)
qed

theorem empty_history_low_risk_witness:
  "volatility [] = Fin 0 \<and>
   risk_assessment (get_recommendation Map.empty []) = Risk Low (Fin 0) \<and>
   risk_assessment (get_recommendation (Map.empty(''revenueGrowth'' \<mapsto> PyStr ''n/a'')) [])
     = RiskUnavailable"
  using empty_history_low_risk [of Map.empty]
    empty_history_low_risk [of "Map.empty(''revenueGrowth'' \<mapsto> PyStr ''n/a'')"]
  by simp

text \<open>
  A profile whose trailing P/E is the text \<^verbatim>\<open>Infinity\<close> makes the first rule raise; the
  fail-safe result then reports no risk label at all, also on an empty history.
\<close>

theorem empty_history_counterexample:
  "risk_assessment (get_recommendation (Map.empty(''trailingPE'' \<mapsto> PyStr ''Infinity'')) []) = RiskUnavailable
   \<and> risk_assessment (get_recommendation (Map.empty(''trailingPE'' \<mapsto> PyStr ''Infinity'')) []) \<noteq> Risk Low (Fin 0)"
  by (simp add: get_recommendation_def get_recommendation_body_def pe_factor_def info_get_def
      recommendation_fallback_def)

section \<open>Properties of the valuations\<close>

subsection \<open>The P/E-relative fair value\<close>

lemma technology_benchmark: "map_of sector_pe_estimates ''Technology'' = Some 25"
  by (simp add: sector_pe_estimates_def)

text \<open>
  Claim C7, as amended. The benchmark table lists 11 sectors. The P/E-relative fair value
  is the trailing EPS times the benchmark whenever the EPS is a positive number (a float
  or an int) and the trailing P/E is present with a true truth value (not \<^verbatim>\<open>None\<close>, not
  zero, not the empty text), and it is unknown in every other case. The benchmark is the
  table's entry for a listed sector, 20 for a sector value that the table does not list,
  and 25, the entry of Technology, when the sector field is absent.
\<close>

theorem pe_valuation_rule:
  "length sector_pe_estimates = 11 \<and>
   calculate_pe_valuation info =
     (case info ''trailingEps'' of
        Some (PyNum eps) \<Rightarrow>
          if 0 < eps \<and> truthy (info_get info ''trailingPE'' (PyNum 0)) then
            Some (eps * (case info ''sector'' of
                           None \<Rightarrow> 25
                         | Some (PyStr s) \<Rightarrow>
                             (case map_of sector_pe_estimates s of None \<Rightarrow> 20 | Some pe \<Rightarrow> pe)
                         | Some _ \<Rightarrow> 20))
          else None
      | Some (PyInt n) \<Rightarrow>
          if 0 < n \<and> truthy (info_get info ''trailingPE'' (PyNum 0)) then
            Some (real_of_int n * (case info ''sector'' of
                           None \<Rightarrow> 25
                         | Some (PyStr s) \<Rightarrow>
                             (case map_of sector_pe_estimates s of None \<Rightarrow> 20 | Some pe \<Rightarrow> pe)
                         | Some _ \<Rightarrow> 20))
          else None
      | _ \<Rightarrow> None)"
  apply (rule conjI)
   apply (simp add: sector_pe_estimates_def)
  apply (cases "info ''trailingEps''")
   apply (simp add: calculate_pe_valuation_def calculate_pe_body_def info_get_def)
  subgoal for v
    apply (cases v)
      apply (simp_all add: calculate_pe_valuation_def calculate_pe_body_def info_get_def Let_def
        technology_benchmark split: option.splits pyval.splits)
    done
  done

theorem pe_valuation_rule_witness:
  "calculate_pe_valuation
     (Map.empty(''trailingEps'' \<mapsto> PyNum 2, ''trailingPE'' \<mapsto> PyNum 10,
                ''sector'' \<mapsto> PyStr ''Energy'')) = Some 30 \<and>
   calculate_pe_valuation
     (Map.empty(''trailingEps'' \<mapsto> PyNum 2, ''trailingPE'' \<mapsto> PyNum 10,
                ''sector'' \<mapsto> PyStr ''Shipping'')) = Some 40 \<and>
   calculate_pe_valuation
     (Map.empty(''trailingEps'' \<mapsto> PyNum (- 2), ''trailingPE'' \<mapsto> PyNum 10)) = None"
  using pe_valuation_rule [of "Map.empty(''trailingEps'' \<mapsto> PyNum 2, ''trailingPE'' \<mapsto> PyNum 10,
                ''sector'' \<mapsto> PyStr ''Energy'')"]
        pe_valuation_rule [of "Map.empty(''trailingEps'' \<mapsto> PyNum 2, ''trailingPE'' \<mapsto> PyNum 10,
                ''sector'' \<mapsto> PyStr ''Shipping'')"]
        pe_valuation_rule [of "Map.empty(''trailingEps'' \<mapsto> PyNum (- 2), ''trailingPE'' \<mapsto> PyNum 10)"]
  by (simp add: info_get_def sector_pe_estimates_def)

text \<open>
  With a positive EPS, a present P/E and no sector field the value is the EPS times 25,
  not times 20; and a trailing P/E that is present and zero makes the value unknown.
\<close>

theorem pe_valuation_counterexample:
  "calculate_pe_valuation (Map.empty(''trailingEps'' \<mapsto> PyNum 2, ''trailingPE'' \<mapsto> PyNum 10)) = Some 50
   \<and> calculate_pe_valuation (Map.empty(''trailingEps'' \<mapsto> PyNum 2, ''trailingPE'' \<mapsto> PyNum 10)) \<noteq> Some (2 * 20)
   \<and> calculate_pe_valuation (Map.empty(''trailingEps'' \<mapsto> PyNum 2, ''trailingPE'' \<mapsto> PyNum 0)) = None"
  by (simp add: calculate_pe_valuation_def calculate_pe_body_def info_get_def sector_pe_estimates_def)

section \<open>The verdict of the recommendation\<close>

text \<open>
  Claim C2. For every profile and price history the verdict follows from the total score
  by fixed thresholds: at least 4 gives STRONG BUY, from 2 up to 4 BUY, from 0 up to 2
  HOLD, from -2 up to 0 WEAK SELL, and below -2 SELL. In particular a profile with
  trailing P/E 12, debt to equity 0.2, dividend yield 0.04 and revenue growth 0.08,
  together with a history of 60 bars whose last close is above the 20-bar average, whose
  20-bar average is above the 50-bar average and whose RSI is 25, has the total score 8
  and the verdict STRONG BUY.
\<close>

theorem verdict_from_score:
  "(4 \<le> score (get_recommendation info hist) \<longrightarrow>
      action (get_recommendation info hist) = ''STRONG BUY'') \<and>
   (2 \<le> score (get_recommendation info hist) \<and> score (get_recommendation info hist) < 4 \<longrightarrow>
      action (get_recommendation info hist) = ''BUY'') \<and>
   (0 \<le> score (get_recommendation info hist) \<and> score (get_recommendation info hist) < 2 \<longrightarrow>
      action (get_recommendation info hist) = ''HOLD'') \<and>
   (- 2 \<le> score (get_recommendation info hist) \<and> score (get_recommendation info hist) < 0 \<longrightarrow>
      action (get_recommendation info hist) = ''WEAK SELL'') \<and>
   (score (get_recommendation info hist) < - 2 \<longrightarrow>
      action (get_recommendation info hist) = ''SELL'') \<and>
   (info ''trailingPE'' = Some (PyNum 12) \<and> info ''debtToEquity'' = Some (PyNum 0.2) \<and>
    info ''dividendYield'' = Some (PyNum 0.04) \<and> info ''revenueGrowth'' = Some (PyNum 0.08) \<and>
    length hist = 60 \<and>
    fl_less (rolling_mean_last 20 (map Fin hist)) (Fin (last hist)) \<and>
    fl_less (rolling_mean_last 50 (map Fin hist)) (rolling_mean_last 20 (map Fin hist)) \<and>
    current_rsi hist = Fin 25 \<longrightarrow>
      score (get_recommendation info hist) = 8 \<and>
      action (get_recommendation info hist) = ''STRONG BUY'')"
proof -
  have thresholds: "action (get_recommendation info hist) =
      fst (final_action (score (get_recommendation info hist)))"
    by (simp add: get_recommendation_def get_recommendation_body_def recommendation_fallback_def
        final_action_def Let_def split: sum.splits prod.splits)
  have scenario: "score (get_recommendation info hist) = 8"
    if "info ''trailingPE'' = Some (PyNum 12)" "info ''debtToEquity'' = Some (PyNum 0.2)"
      "info ''dividendYield'' = Some (PyNum 0.04)" "info ''revenueGrowth'' = Some (PyNum 0.08)"
      "length hist = 60"
      "fl_less (rolling_mean_last 20 (map Fin hist)) (Fin (last hist))"
      "fl_less (rolling_mean_last 50 (map Fin hist)) (rolling_mean_last 20 (map Fin hist))"
      "current_rsi hist = Fin 25"
  proof -
    have ne: "hist \<noteq> []" using that(5) by auto
    have f1: "pe_factor info = Inr (2, Plain ''Undervalued (P/E < 15)'')"
      using that(1) by (simp add: pe_factor_def info_get_def)
    have f2: "fst (momentum_factor hist) = 2"
      using that(5,6,7) ne by (simp add: momentum_factor_def Let_def)
    have f3: "fst (rsi_factor hist) = 1"
      using that(5,8) ne by (simp add: rsi_factor_def Let_def)
    have f4: "debt_factor info = Inr (1, Plain ''Strong balance sheet (low debt)'')"
      using that(2) by (simp add: debt_factor_def info_get_def)
    have f5: "\<exists>f. dividend_factor info = Inr (1, f)"
      using that(3) by (simp add: dividend_factor_def info_get_def)
    have f6: "\<exists>f. revenue_factor info = Inr (1, f)"
      using that(4) by (simp add: revenue_factor_def info_get_def)
    from f5 obtain g5 where g5: "dividend_factor info = Inr (1, g5)" ..
    from f6 obtain g6 where g6: "revenue_factor info = Inr (1, g6)" ..
    show ?thesis
      using f1 f2 f3 f4 g5 g6
      by (cases "momentum_factor hist"; cases "rsi_factor hist")
         (simp add: get_recommendation_def get_recommendation_body_def Let_def)
  qed
  show ?thesis
    using thresholds scenario by (auto simp add: final_action_def)
qed

theorem verdict_from_score_witness:
  "score (get_recommendation scenario_info uptrend_history) = 8 \<and>
   action (get_recommendation scenario_info uptrend_history) = ''STRONG BUY'' \<and>
   action (get_recommendation (Map.empty(''trailingPE'' \<mapsto> PyNum 12)) []) = ''BUY'' \<and>
   action (get_recommendation Map.empty []) = ''HOLD'' \<and>
   action (get_recommendation (Map.empty(''trailingPE'' \<mapsto> PyNum 30)) []) = ''WEAK SELL'' \<and>
   action (get_recommendation (Map.empty(''trailingPE'' \<mapsto> PyNum 30, ''debtToEquity'' \<mapsto> PyNum 2,
             ''revenueGrowth'' \<mapsto> PyNum (- 0.1))) []) = ''SELL''"
proof -
  have 1: "length uptrend_history = 60" by (simp add: uptrend_history_def)
  have 2: "fl_less (rolling_mean_last 20 (map Fin uptrend_history)) (Fin (last uptrend_history))"
    by (simp add: uptrend_history_def rolling_mean_last_def fl_sum_def)
  have 3: "fl_less (rolling_mean_last 50 (map Fin uptrend_history))
             (rolling_mean_last 20 (map Fin uptrend_history))"
    by (simp add: uptrend_history_def rolling_mean_last_def fl_sum_def)
  have 4: "current_rsi uptrend_history = Fin 25"
    by (simp add: uptrend_history_def current_rsi_def rolling_mean_last_def fl_sum_def
        gains_def losses_def fl_sub_def)
  have 5: "scenario_info ''trailingPE'' = Some (PyNum 12) \<and>
           scenario_info ''debtToEquity'' = Some (PyNum 0.2) \<and>
           scenario_info ''dividendYield'' = Some (PyNum 0.04) \<and>
           scenario_info ''revenueGrowth'' = Some (PyNum 0.08)"
    by (simp add: scenario_info_def)
  note defs = get_recommendation_def get_recommendation_body_def pe_factor_def momentum_factor_def
    rsi_factor_def debt_factor_def dividend_factor_def revenue_factor_def info_get_def Let_def
  have 6: "score (get_recommendation (Map.empty(''trailingPE'' \<mapsto> PyNum 12)) []) = 2"
    by (simp add: defs)
  have 7: "score (get_recommendation Map.empty []) = 0"
    by (simp add: defs)
  have 8: "score (get_recommendation (Map.empty(''trailingPE'' \<mapsto> PyNum 30)) []) = - 1"
    by (simp add: defs)
  have 9: "score (get_recommendation (Map.empty(''trailingPE'' \<mapsto> PyNum 30, ''debtToEquity'' \<mapsto> PyNum 2,
             ''revenueGrowth'' \<mapsto> PyNum (- 0.1))) []) = - 3"
    by (simp add: defs)
  have a: "score (get_recommendation scenario_info uptrend_history) = 8 \<and>
     action (get_recommendation scenario_info uptrend_history) = ''STRONG BUY''"
    using verdict_from_score [of scenario_info uptrend_history] 1 2 3 4 5 by blast
  have b: "action (get_recommendation (Map.empty(''trailingPE'' \<mapsto> PyNum 12)) []) = ''BUY''"
    using verdict_from_score [of "Map.empty(''trailingPE'' \<mapsto> PyNum 12)" "[]"] 6 by simp
  have c: "action (get_recommendation Map.empty []) = ''HOLD''"
    using verdict_from_score [of Map.empty "[]"] 7 by simp
  have d: "action (get_recommendation (Map.empty(''trailingPE'' \<mapsto> PyNum 30)) []) = ''WEAK SELL''"
    using verdict_from_score [of "Map.empty(''trailingPE'' \<mapsto> PyNum 30)" "[]"] 8 by simp
  have e: "action (get_recommendation (Map.empty(''trailingPE'' \<mapsto> PyNum 30, ''debtToEquity'' \<mapsto> PyNum 2,
             ''revenueGrowth'' \<mapsto> PyNum (- 0.1))) []) = ''SELL''"
    using verdict_from_score [of "Map.empty(''trailingPE'' \<mapsto> PyNum 30, ''debtToEquity'' \<mapsto> PyNum 2,
             ''revenueGrowth'' \<mapsto> PyNum (- 0.1))" "[]"] 9 by simp
  show ?thesis using a b c d e by blast
qed

section \<open>The fail-safe results\<close>

text \<open>
  The inputs on which the body of each valuation function raises: a text where a number
  is compared or computed with, and an int too large for a float where one is converted.
  For the DCF value these are the revenue in the approximation of the capital
  expenditure and the share count in the final division; a row without a first value
  cannot be read either.
\<close>

lemma to_float_raises:
  "truthy v \<Longrightarrow> (\<exists>e. to_float v = Inl e) \<longleftrightarrow> is_text v \<or> is_huge v"
  by (cases v) (auto simp add: is_text_def is_huge_def)

lemma to_double_raises:
  "truthy v \<Longrightarrow> (\<exists>e. to_double v = Inl e) \<longleftrightarrow> is_text v \<or> is_huge v"
  by (cases v) (auto simp add: is_text_def is_huge_def)

lemma pe_body_raises:
  "(\<exists>e. calculate_pe_body info = Inl e) \<longleftrightarrow> is_text (info_get info ''trailingEps'' (PyNum 0))"
  by (cases "info_get info ''trailingEps'' (PyNum 0)")
     (auto simp add: calculate_pe_body_def Let_def is_text_def)

lemma graham_body_raises:
  "(\<exists>e. calculate_graham_body info = Inl e) \<longleftrightarrow>
     (is_text (info_get info ''trailingEps'' (PyNum 0)) \<and>
        truthy (info_get info ''bookValue'' (PyNum 0))) \<or>
     (is_positive (info_get info ''trailingEps'' (PyNum 0)) \<and>
        is_text (info_get info ''bookValue'' (PyNum 0))) \<or>
     (is_positive (info_get info ''trailingEps'' (PyNum 0)) \<and>
        is_positive (info_get info ''bookValue'' (PyNum 0)) \<and>
        (is_huge (info_get info ''trailingEps'' (PyNum 0)) \<or>
         is_huge (info_get info ''bookValue'' (PyNum 0))))"
  by (cases "info_get info ''trailingEps'' (PyNum 0)";
      cases "info_get info ''bookValue'' (PyNum 0)")
     (auto simp add: calculate_graham_body_def Let_def is_text_def is_positive_def is_huge_def)

lemma peg_body_raises:
  "(\<exists>e. calculate_peg_body info = Inl e) \<longleftrightarrow>
     truthy (info_get info ''trailingPE'' (PyNum 0)) \<and>
     (is_text (info_get info ''earningsGrowth'' (PyNum 0)) \<or>
      is_positive (info_get info ''earningsGrowth'' (PyNum 0)) \<and>
      (is_text (info_get info ''trailingPE'' (PyNum 0)) \<or>
       is_huge (info_get info ''trailingPE'' (PyNum 0)) \<and>
         (\<exists>x. info_get info ''earningsGrowth'' (PyNum 0) = PyNum x) \<or>
       (\<exists>p. info_get info ''trailingPE'' (PyNum 0) = PyNum p) \<and>
         is_huge (py_times100 (info_get info ''earningsGrowth'' (PyNum 0))) \<or>
       (\<exists>n m. info_get info ''trailingPE'' (PyNum 0) = PyInt n \<and>
              info_get info ''earningsGrowth'' (PyNum 0) = PyInt m \<and>
              double_limit \<le> \<bar>real_of_int n / real_of_int (m * 100)\<bar>)))"
  by (cases "info_get info ''trailingPE'' (PyNum 0)";
      cases "info_get info ''earningsGrowth'' (PyNum 0)")
     (auto simp add: calculate_peg_body_def Let_def is_text_def is_positive_def is_huge_def)

lemma recent_fcf_raises:
  "(\<exists>e. recent_fcf_of cash_flow info = Inl e) \<longleftrightarrow>
     \<not> frame_empty cash_flow \<and>
     (in_index ''Free Cash Flow'' cash_flow \<and> loc cash_flow ''Free Cash Flow'' = [] \<or>
      \<not> in_index ''Free Cash Flow'' cash_flow \<and> in_index ''Operating Cash Flow'' cash_flow \<and>
      (loc cash_flow ''Operating Cash Flow'' = [] \<or>
       is_text (info_get info ''totalRevenue'' (PyNum 0)) \<or>
       is_huge (info_get info ''totalRevenue'' (PyNum 0))))"
proof -
  have iloc: "(\<exists>e. iloc0 s = Inl e) \<longleftrightarrow> s = []" for s
    by (cases s) auto
  have capex: "(\<exists>e. (if truthy v then py_mul_float v 0.05 else Inr (Fin 0)) = Inl e)
      \<longleftrightarrow> is_text v \<or> is_huge v" for v
    using double_limit_pos
    by (cases v) (auto simp add: py_mul_float_def is_text_def is_huge_def)
  show ?thesis
  proof (cases "frame_empty cash_flow")
    case True
    then show ?thesis by (simp add: recent_fcf_of_def)
  next
    case False
    show ?thesis
    proof (cases "in_index ''Free Cash Flow'' cash_flow")
      case True
      then show ?thesis using False iloc [of "loc cash_flow ''Free Cash Flow''"]
        by (auto simp add: recent_fcf_of_def split: sum.splits)
    next
      case noF: False
      show ?thesis
      proof (cases "in_index ''Operating Cash Flow'' cash_flow")
        case True
        show ?thesis
        proof (cases "iloc0 (loc cash_flow ''Operating Cash Flow'')")
          case (Inl e)
          then show ?thesis
            using False noF True iloc [of "loc cash_flow ''Operating Cash Flow''"]
            by (auto simp add: recent_fcf_of_def)
        next
          case (Inr v)
          then have ne: "loc cash_flow ''Operating Cash Flow'' \<noteq> []"
            using iloc [of "loc cash_flow ''Operating Cash Flow''"] by auto
          have "(\<exists>e. recent_fcf_of cash_flow info = Inl e) \<longleftrightarrow>
              (\<exists>e. (if truthy (info_get info ''totalRevenue'' (PyNum 0))
                    then py_mul_float (info_get info ''totalRevenue'' (PyNum 0)) 0.05
                    else Inr (Fin 0)) = Inl e)"
            using False noF True Inr
            by (simp add: recent_fcf_of_def Let_def split: sum.splits)
          then show ?thesis
            using False noF True ne capex [of "info_get info ''totalRevenue'' (PyNum 0)"]
            by simp
        qed
      next
        case False
        then show ?thesis using noF by (simp add: recent_fcf_of_def)
      qed
    qed
  qed
qed

lemma dcf_body_raises:
  "(\<exists>e. calculate_dcf_body cash_flow info = Inl e) \<longleftrightarrow>
     (\<exists>e. recent_fcf_of cash_flow info = Inl e) \<or>
     (\<exists>v. recent_fcf_of cash_flow info = Inr (Some v) \<and> v \<noteq> NaN \<and> \<not> fl_le v (Fin 0) \<and>
          (is_text (info_get info ''sharesOutstanding'' (PyNum 0)) \<or>
           is_huge (info_get info ''sharesOutstanding'' (PyNum 0))))"
proof (cases "recent_fcf_of cash_flow info")
  case (Inl e)
  then show ?thesis by (simp add: calculate_dcf_body_def)
next
  case (Inr r)
  show ?thesis
  proof (cases r)
    case None
    then show ?thesis using Inr by (simp add: calculate_dcf_body_def)
  next
    case (Some v)
    have div: "truthy sh \<Longrightarrow> (\<exists>e. fl_div_py a sh = Inl e) \<longleftrightarrow> is_text sh \<or> is_huge sh" for a sh
      using to_double_raises [of sh] by (auto simp add: fl_div_py_def split: sum.splits)
    have nt: "\<not> truthy sh \<Longrightarrow> \<not> (is_text sh \<or> is_huge sh)" for sh
      using double_limit_pos by (cases sh) (auto simp add: is_text_def is_huge_def)
    show ?thesis
    proof (cases "truthy (info_get info ''sharesOutstanding'' (PyNum 0))")
      case True
      then show ?thesis
        using Inr Some div [OF True, of "enterprise_value_of v"]
        by (auto simp add: calculate_dcf_body_def Let_def split: sum.splits)
    next
      case False
      then show ?thesis
        using Inr Some nt [OF False]
        by (auto simp add: calculate_dcf_body_def Let_def)
    qed
  qed
qed

text \<open>
  Claim C3. No function hands an error to its caller: each one is total, and the errors
  of its body end in its handler. The scoring of a recommendation raises exactly on the
  profiles named above; the result is then the verdict HOLD with score 0, the single
  factor "Insufficient data for analysis" and no risk assessment, and on every other
  profile it is the scored result with its six factors. Each of the four valuation
  functions raises exactly on the inputs stated here, and then returns the unknown
  value.
\<close>

theorem fail_safe:
  "((\<exists>e. get_recommendation_body info hist = Inl e) \<longleftrightarrow>
      is_text (info_get info ''trailingPE'' (PyNum 0)) \<or>
      is_text (info_get info ''debtToEquity'' (PyNum 0)) \<or>
      is_text (info_get info ''dividendYield'' (PyNum 0)) \<or>
      is_huge (py_times100 (info_get info ''dividendYield'' (PyNum 0))) \<or>
      is_text (info_get info ''revenueGrowth'' (PyNum 0)) \<or>
      is_huge (py_times100 (info_get info ''revenueGrowth'' (PyNum 0)))) \<and>
   ((\<exists>e. get_recommendation_body info hist = Inl e) \<longrightarrow>
      action (get_recommendation info hist) = ''HOLD'' \<and>
      score (get_recommendation info hist) = 0 \<and>
      factors (get_recommendation info hist) = [(''Error'', Plain ''Insufficient data for analysis'')] \<and>
      risk_assessment (get_recommendation info hist) = RiskUnavailable \<and>
      (\<exists>e. reason (get_recommendation info hist) = Unable e)) \<and>
   (\<not> (\<exists>e. get_recommendation_body info hist = Inl e) \<longrightarrow>
      get_recommendation_body info hist = Inr (get_recommendation info hist) \<and>
      map fst (factors (get_recommendation info hist)) =
        [''Valuation (P/E)'', ''Price Momentum'', ''Technical (RSI)'', ''Financial Health'',
         ''Dividend'', ''Revenue Growth'']) \<and>
   ((\<exists>e. calculate_dcf_body cash_flow info = Inl e) \<longleftrightarrow>
      \<not> frame_empty cash_flow \<and>
      (in_index ''Free Cash Flow'' cash_flow \<and> loc cash_flow ''Free Cash Flow'' = [] \<or>
       \<not> in_index ''Free Cash Flow'' cash_flow \<and> in_index ''Operating Cash Flow'' cash_flow \<and>
       (loc cash_flow ''Operating Cash Flow'' = [] \<or>
        is_text (info_get info ''totalRevenue'' (PyNum 0)) \<or>
        is_huge (info_get info ''totalRevenue'' (PyNum 0)))) \<or>
      (\<exists>v. recent_fcf_of cash_flow info = Inr (Some v) \<and> v \<noteq> NaN \<and> \<not> fl_le v (Fin 0) \<and>
           (is_text (info_get info ''sharesOutstanding'' (PyNum 0)) \<or>
            is_huge (info_get info ''sharesOutstanding'' (PyNum 0))))) \<and>
   ((\<exists>e. calculate_dcf_body cash_flow info = Inl e) \<longrightarrow>
      calculate_dcf_value cash_flow info = None) \<and>
   ((\<exists>e. calculate_pe_body info = Inl e) \<longleftrightarrow>
      is_text (info_get info ''trailingEps'' (PyNum 0))) \<and>
   ((\<exists>e. calculate_pe_body info = Inl e) \<longrightarrow> calculate_pe_valuation info = None) \<and>
   ((\<exists>e. calculate_graham_body info = Inl e) \<longleftrightarrow>
      (is_text (info_get info ''trailingEps'' (PyNum 0)) \<and>
         truthy (info_get info ''bookValue'' (PyNum 0))) \<or>
      (is_positive (info_get info ''trailingEps'' (PyNum 0)) \<and>
         is_text (info_get info ''bookValue'' (PyNum 0))) \<or>
      (is_positive (info_get info ''trailingEps'' (PyNum 0)) \<and>
         is_positive (info_get info ''bookValue'' (PyNum 0)) \<and>
         (is_huge (info_get info ''trailingEps'' (PyNum 0)) \<or>
          is_huge (info_get info ''bookValue'' (PyNum 0))))) \<and>
   ((\<exists>e. calculate_graham_body info = Inl e) \<longrightarrow> calculate_graham_number info = None) \<and>
   ((\<exists>e. calculate_peg_body info = Inl e) \<longleftrightarrow>
      truthy (info_get info ''trailingPE'' (PyNum 0)) \<and>
      (is_text (info_get info ''earningsGrowth'' (PyNum 0)) \<or>
       is_positive (info_get info ''earningsGrowth'' (PyNum 0)) \<and>
       (is_text (info_get info ''trailingPE'' (PyNum 0)) \<or>
        is_huge (info_get info ''trailingPE'' (PyNum 0)) \<and>
          (\<exists>x. info_get info ''earningsGrowth'' (PyNum 0) = PyNum x) \<or>
        (\<exists>p. info_get info ''trailingPE'' (PyNum 0) = PyNum p) \<and>
          is_huge (py_times100 (info_get info ''earningsGrowth'' (PyNum 0))) \<or>
        (\<exists>n m. info_get info ''trailingPE'' (PyNum 0) = PyInt n \<and>
               info_get info ''earningsGrowth'' (PyNum 0) = PyInt m \<and>
               double_limit \<le> \<bar>real_of_int n / real_of_int (m * 100)\<bar>)))) \<and>
   ((\<exists>e. calculate_peg_body info = Inl e) \<longrightarrow> calculate_peg_ratio info = None)"
proof -
  have rec_iff: "(\<exists>e. get_recommendation_body info hist = Inl e) \<longleftrightarrow>
      is_text (info_get info ''trailingPE'' (PyNum 0)) \<or>
      is_text (info_get info ''debtToEquity'' (PyNum 0)) \<or>
      is_text (info_get info ''dividendYield'' (PyNum 0)) \<or>
      is_huge (py_times100 (info_get info ''dividendYield'' (PyNum 0))) \<or>
      is_text (info_get info ''revenueGrowth'' (PyNum 0)) \<or>
      is_huge (py_times100 (info_get info ''revenueGrowth'' (PyNum 0)))"
  proof -
    have t: "is_text (info_get info k (PyNum 0)) \<longleftrightarrow> (\<exists>s. s \<noteq> [] \<and> info k = Some (PyStr s))" for k
      by (cases "info k") (auto simp add: info_get_def is_text_def split: pyval.splits)
    have h: "is_huge (py_times100 (info_get info k (PyNum 0))) \<longleftrightarrow>
        (\<exists>n. info k = Some (PyInt n) \<and> double_limit \<le> \<bar>real_of_int n * 100\<bar>)" for k
    proof (cases "info k")
      case None
      then show ?thesis by (simp add: info_get_def is_huge_def)
    next
      case (Some a)
      then show ?thesis by (cases a) (simp_all add: info_get_def is_huge_def)
    qed
    show ?thesis unfolding t h by (rule recommendation_raises)
  qed
  have rec_fail: "(\<exists>e. get_recommendation_body info hist = Inl e) \<longrightarrow>
      action (get_recommendation info hist) = ''HOLD'' \<and>
      score (get_recommendation info hist) = 0 \<and>
      factors (get_recommendation info hist) = [(''Error'', Plain ''Insufficient data for analysis'')] \<and>
      risk_assessment (get_recommendation info hist) = RiskUnavailable \<and>
      (\<exists>e. reason (get_recommendation info hist) = Unable e)"
    by (auto simp add: get_recommendation_def recommendation_fallback_def)
  have rec_ok: "\<not> (\<exists>e. get_recommendation_body info hist = Inl e) \<longrightarrow>
      get_recommendation_body info hist = Inr (get_recommendation info hist) \<and>
      map fst (factors (get_recommendation info hist)) =
        [''Valuation (P/E)'', ''Price Momentum'', ''Technical (RSI)'', ''Financial Health'',
         ''Dividend'', ''Revenue Growth'']"
  proof
    assume "\<not> (\<exists>e. get_recommendation_body info hist = Inl e)"
    then obtain r where r: "get_recommendation_body info hist = Inr r"
      by (cases "get_recommendation_body info hist") auto
    then have g: "get_recommendation info hist = r" by (simp add: get_recommendation_def)
    have "map fst (factors r) =
        [''Valuation (P/E)'', ''Price Momentum'', ''Technical (RSI)'', ''Financial Health'',
         ''Dividend'', ''Revenue Growth'']"
      using r by (auto simp add: get_recommendation_body_def Let_def split: sum.splits prod.splits)
    then show "get_recommendation_body info hist = Inr (get_recommendation info hist) \<and>
      map fst (factors (get_recommendation info hist)) =
        [''Valuation (P/E)'', ''Price Momentum'', ''Technical (RSI)'', ''Financial Health'',
         ''Dividend'', ''Revenue Growth'']"
      using r g by simp
  qed
  have dcf_iff: "(\<exists>e. calculate_dcf_body cash_flow info = Inl e) \<longleftrightarrow>
      \<not> frame_empty cash_flow \<and>
      (in_index ''Free Cash Flow'' cash_flow \<and> loc cash_flow ''Free Cash Flow'' = [] \<or>
       \<not> in_index ''Free Cash Flow'' cash_flow \<and> in_index ''Operating Cash Flow'' cash_flow \<and>
       (loc cash_flow ''Operating Cash Flow'' = [] \<or>
        is_text (info_get info ''totalRevenue'' (PyNum 0)) \<or>
        is_huge (info_get info ''totalRevenue'' (PyNum 0)))) \<or>
      (\<exists>v. recent_fcf_of cash_flow info = Inr (Some v) \<and> v \<noteq> NaN \<and> \<not> fl_le v (Fin 0) \<and>
           (is_text (info_get info ''sharesOutstanding'' (PyNum 0)) \<or>
            is_huge (info_get info ''sharesOutstanding'' (PyNum 0))))"
    unfolding dcf_body_raises recent_fcf_raises ..
  have none: "(\<exists>e. calculate_dcf_body cash_flow info = Inl e) \<longrightarrow>
      calculate_dcf_value cash_flow info = None"
    "(\<exists>e. calculate_pe_body info = Inl e) \<longrightarrow> calculate_pe_valuation info = None"
    "(\<exists>e. calculate_graham_body info = Inl e) \<longrightarrow> calculate_graham_number info = None"
    "(\<exists>e. calculate_peg_body info = Inl e) \<longrightarrow> calculate_peg_ratio info = None"
    by (auto simp add: calculate_dcf_value_def calculate_pe_valuation_def
        calculate_graham_number_def calculate_peg_ratio_def)
  show ?thesis
    using rec_iff rec_fail rec_ok dcf_iff none pe_body_raises [of info]
      graham_body_raises [of info] peg_body_raises [of info]
    by (intro conjI) assumption+
qed

theorem fail_safe_witness:
  "action (get_recommendation malformed_info []) = ''HOLD'' \<and>
   score (get_recommendation malformed_info []) = 0 \<and>
   factors (get_recommendation malformed_info []) =
     [(''Error'', Plain ''Insufficient data for analysis'')] \<and>
   risk_assessment (get_recommendation malformed_info []) = RiskUnavailable \<and>
   calculate_dcf_value sample_cash_flow malformed_info = None \<and>
   calculate_pe_valuation malformed_info = None \<and>
   calculate_graham_number malformed_info = None \<and>
   calculate_peg_ratio malformed_info = None \<and>
   calculate_dcf_value sample_cash_flow oversized_shares_info = None \<and>
   get_recommendation_body Map.empty [] = Inr (get_recommendation Map.empty [])"
proof -
  have fcf: "recent_fcf_of sample_cash_flow i = Inr (Some (Fin 100))" for i
    by (simp add: recent_fcf_of_def sample_cash_flow_def frame_empty_def in_index_def loc_def)
  have good: "Fin 100 \<noteq> NaN \<and> \<not> fl_le (Fin 100) (Fin 0)" by simp
  have 1: "is_text (info_get malformed_info ''trailingPE'' (PyNum 0))"
    by (simp add: malformed_info_def info_get_def is_text_def)
  have 2: "is_text (info_get malformed_info ''sharesOutstanding'' (PyNum 0))"
    by (simp add: malformed_info_def info_get_def is_text_def)
  have 3: "is_text (info_get malformed_info ''trailingEps'' (PyNum 0))"
    by (simp add: malformed_info_def info_get_def is_text_def)
  have 4: "truthy (info_get malformed_info ''bookValue'' (PyNum 0))"
    by (simp add: malformed_info_def info_get_def)
  have 5: "truthy (info_get malformed_info ''trailingPE'' (PyNum 0))"
    "is_text (info_get malformed_info ''earningsGrowth'' (PyNum 0))"
    by (simp_all add: malformed_info_def info_get_def is_text_def)
  have 6: "is_huge (info_get oversized_shares_info ''sharesOutstanding'' (PyNum 0))"
    by (simp add: oversized_shares_info_def info_get_def is_huge_def double_limit_def)
  have 7: "\<not> (is_text (info_get Map.empty ''trailingPE'' (PyNum 0)) \<or>
      is_text (info_get Map.empty ''debtToEquity'' (PyNum 0)) \<or>
      is_text (info_get Map.empty ''dividendYield'' (PyNum 0)) \<or>
      is_huge (py_times100 (info_get Map.empty ''dividendYield'' (PyNum 0))) \<or>
      is_text (info_get Map.empty ''revenueGrowth'' (PyNum 0)) \<or>
      is_huge (py_times100 (info_get Map.empty ''revenueGrowth'' (PyNum 0))))"
    by (simp add: info_get_def is_text_def is_huge_def)
  have r: "\<exists>e. get_recommendation_body malformed_info [] = Inl e"
    using fail_safe [of malformed_info "[]" sample_cash_flow, THEN conjunct1] 1 by blast
  have ra: "action (get_recommendation malformed_info []) = ''HOLD'' \<and>
      score (get_recommendation malformed_info []) = 0 \<and>
      factors (get_recommendation malformed_info []) =
        [(''Error'', Plain ''Insufficient data for analysis'')] \<and>
      risk_assessment (get_recommendation malformed_info []) = RiskUnavailable"
    using fail_safe [of malformed_info "[]" sample_cash_flow, THEN conjunct2, THEN conjunct1] r by blast
  have d: "\<exists>e. calculate_dcf_body sample_cash_flow malformed_info = Inl e"
    using fail_safe [of malformed_info "[]" sample_cash_flow, THEN conjunct2, THEN conjunct2, THEN conjunct2, THEN conjunct1] 2 good fcf [of malformed_info] by blast
  have da: "calculate_dcf_value sample_cash_flow malformed_info = None"
    using fail_safe [of malformed_info "[]" sample_cash_flow, THEN conjunct2, THEN conjunct2, THEN conjunct2, THEN conjunct2, THEN conjunct1] d by blast
  have p: "\<exists>e. calculate_pe_body malformed_info = Inl e"
    using fail_safe [of malformed_info "[]" sample_cash_flow, THEN conjunct2, THEN conjunct2, THEN conjunct2, THEN conjunct2, THEN conjunct2, THEN conjunct1] 3 by blast
  have pa: "calculate_pe_valuation malformed_info = None"
    using fail_safe [of malformed_info "[]" sample_cash_flow, THEN conjunct2, THEN conjunct2, THEN conjunct2, THEN conjunct2, THEN conjunct2, THEN conjunct2, THEN conjunct1] p by blast
  have g: "\<exists>e. calculate_graham_body malformed_info = Inl e"
    using fail_safe [of malformed_info "[]" sample_cash_flow, THEN conjunct2, THEN conjunct2, THEN conjunct2, THEN conjunct2, THEN conjunct2, THEN conjunct2, THEN conjunct2, THEN conjunct1] 3 4 by blast
  have ga: "calculate_graham_number malformed_info = None"
    using fail_safe [of malformed_info "[]" sample_cash_flow, THEN conjunct2, THEN conjunct2, THEN conjunct2, THEN conjunct2, THEN conjunct2, THEN conjunct2, THEN conjunct2, THEN conjunct2, THEN conjunct1] g by blast
  have q: "\<exists>e. calculate_peg_body malformed_info = Inl e"
    using fail_safe [of malformed_info "[]" sample_cash_flow, THEN conjunct2, THEN conjunct2, THEN conjunct2, THEN conjunct2, THEN conjunct2, THEN conjunct2, THEN conjunct2, THEN conjunct2, THEN conjunct2, THEN conjunct1] 5 by blast
  have qa: "calculate_peg_ratio malformed_info = None"
    using fail_safe [of malformed_info "[]" sample_cash_flow, THEN conjunct2, THEN conjunct2, THEN conjunct2, THEN conjunct2, THEN conjunct2, THEN conjunct2, THEN conjunct2, THEN conjunct2, THEN conjunct2, THEN conjunct2] q by blast
  have o: "\<exists>e. calculate_dcf_body sample_cash_flow oversized_shares_info = Inl e"
    using fail_safe [of oversized_shares_info "[]" sample_cash_flow, THEN conjunct2, THEN conjunct2, THEN conjunct2, THEN conjunct1] 6 good fcf [of oversized_shares_info] by blast
  have oa: "calculate_dcf_value sample_cash_flow oversized_shares_info = None"
    using fail_safe [of oversized_shares_info "[]" sample_cash_flow, THEN conjunct2, THEN conjunct2, THEN conjunct2, THEN conjunct2, THEN conjunct1] o by blast
  have n: "\<not> (\<exists>e. get_recommendation_body Map.empty [] = Inl e)"
    using fail_safe [of Map.empty "[]" sample_cash_flow, THEN conjunct1] 7 by blast
  have na: "get_recommendation_body Map.empty [] = Inr (get_recommendation Map.empty [])"
    using fail_safe [of Map.empty "[]" sample_cash_flow, THEN conjunct2, THEN conjunct2, THEN conjunct1] n by blast
  show ?thesis using ra da pa ga qa oa na by simp
qed

section \<open>The compounding analysis\<close>

text \<open>Each of the six scoring steps leaves the verdict alone and adds a bounded amount.\<close>

lemma revenue_step_bounds:
  "is_compounding (revenue_step f a) = is_compounding a \<and>
   compounding_score a \<le> compounding_score (revenue_step f a) \<and>
   compounding_score (revenue_step f a) \<le> compounding_score a + 2"
  by (simp add: revenue_step_def Let_def)

lemma profit_step_bounds:
  "is_compounding (profit_step ni a) = is_compounding a \<and>
   compounding_score a \<le> compounding_score (profit_step ni a) \<and>
   compounding_score (profit_step ni a) \<le> compounding_score a + 3"
  by (simp add: profit_step_def Let_def split: option.splits)

lemma roe_step_bounds:
  "is_compounding (roe_step b ni a) = is_compounding a \<and>
   compounding_score a \<le> compounding_score (roe_step b ni a) \<and>
   compounding_score (roe_step b ni a) \<le> compounding_score a + 2"
  by (simp add: roe_step_def Let_def split: option.splits)

lemma retained_step_bounds:
  "is_compounding (retained_step b a) = is_compounding a \<and>
   compounding_score a \<le> compounding_score (retained_step b a) \<and>
   compounding_score (retained_step b a) \<le> compounding_score a + 1"
  by (simp add: retained_step_def Let_def split: option.splits)

lemma debt_step_bounds:
  "debt_step info a = Inr a' \<Longrightarrow>
   is_compounding a' = is_compounding a \<and>
   compounding_score a \<le> compounding_score a' \<and>
   compounding_score a' \<le> compounding_score a + 1"
  by (auto simp add: debt_step_def Let_def split: if_splits sum.splits)

lemma margin_step_bounds:
  "margin_step info a = Inr a' \<Longrightarrow>
   is_compounding a' = is_compounding a \<and>
   compounding_score a \<le> compounding_score a' \<and>
   compounding_score a' \<le> compounding_score a + 1"
  by (auto simp add: margin_step_def Let_def split: if_splits sum.splits)

lemma debt_step_raises:
  "(\<exists>e. debt_step info a = Inl e) \<longleftrightarrow> (\<exists>s. s \<noteq> [] \<and> info ''debtToEquity'' = Some (PyStr s))"
  apply (cases "info ''debtToEquity''")
   apply (simp add: debt_step_def info_get_def)
  subgoal for v
    by (cases v) (auto simp add: debt_step_def info_get_def Let_def)
  done

lemma margin_step_raises:
  "(\<exists>e. margin_step info a = Inl e) \<longleftrightarrow> (\<exists>s. s \<noteq> [] \<and> info ''profitMargins'' = Some (PyStr s))"
  apply (cases "info ''profitMargins''")
   apply (simp add: margin_step_def info_get_def)
  subgoal for v
    by (cases v) (auto simp add: margin_step_def info_get_def Let_def)
  done

lemma analyze_body_raises:
  "(\<exists>e. analyze_body f b info = Inl e) \<longleftrightarrow>
     \<not> frame_empty f \<and>
     ((\<exists>s. s \<noteq> [] \<and> info ''debtToEquity'' = Some (PyStr s)) \<or>
      (\<exists>s. s \<noteq> [] \<and> info ''profitMargins'' = Some (PyStr s)))"
proof (cases "frame_empty f")
  case True
  then show ?thesis by (simp add: analyze_body_def)
next
  case False
  define a4 where "a4 = retained_step b (roe_step b (net_income_of f)
      (profit_step (net_income_of f) (revenue_step f initial_analysis)))"
  have body: "analyze_body f b info =
      (case debt_step info a4 of Inl e \<Rightarrow> Inl e
       | Inr a5 \<Rightarrow> (case margin_step info a5 of Inl e \<Rightarrow> Inl e | Inr a6 \<Rightarrow> Inr (verdict_step a6)))"
    using False by (simp add: analyze_body_def a4_def Let_def)
  show ?thesis
  proof (cases "debt_step info a4")
    case (Inl e)
    then have "\<exists>e. debt_step info a4 = Inl e" by blast
    then have "\<exists>s. s \<noteq> [] \<and> info ''debtToEquity'' = Some (PyStr s)"
      using debt_step_raises [of info a4] by blast
    then show ?thesis using False body Inl by simp
  next
    case (Inr a5)
    then have "\<not> (\<exists>e. debt_step info a4 = Inl e)" by simp
    then have nd: "\<not> (\<exists>s. s \<noteq> [] \<and> info ''debtToEquity'' = Some (PyStr s))"
      using debt_step_raises [of info a4] by blast
    have "(\<exists>e. analyze_body f b info = Inl e) \<longleftrightarrow> (\<exists>e. margin_step info a5 = Inl e)"
      using body Inr by (simp split: sum.splits)
    then show ?thesis using False nd margin_step_raises [of info a5] by blast
  qed
qed

lemma analyze_body_result:
  assumes "\<not> frame_empty f" "analyze_body f b info = Inr a"
  shows "0 \<le> compounding_score a \<and> compounding_score a \<le> 10 \<and>
         is_compounding a = Some (5 \<le> compounding_score a)"
proof -
  define a1 where "a1 = revenue_step f initial_analysis"
  define a2 where "a2 = profit_step (net_income_of f) a1"
  define a3 where "a3 = roe_step b (net_income_of f) a2"
  define a4 where "a4 = retained_step b a3"
  from assms obtain a5 a6 where 5: "debt_step info a4 = Inr a5"
    and 6: "margin_step info a5 = Inr a6" and a: "a = verdict_step a6"
    by (auto simp add: analyze_body_def Let_def a1_def a2_def a3_def a4_def split: sum.splits)
  have i0: "is_compounding initial_analysis = Some False \<and> compounding_score initial_analysis = 0"
    by (simp add: initial_analysis_def)
  note b1 = revenue_step_bounds [of f initial_analysis, folded a1_def]
  note b2 = profit_step_bounds [of "net_income_of f" a1, folded a2_def]
  note b3 = roe_step_bounds [of b "net_income_of f" a2, folded a3_def]
  note b4 = retained_step_bounds [of b a3, folded a4_def]
  note b5 = debt_step_bounds [OF 5]
  note b6 = margin_step_bounds [OF 6]
  have "is_compounding a6 = Some False" "0 \<le> compounding_score a6" "compounding_score a6 \<le> 10"
    using i0 b1 b2 b3 b4 b5 b6 by auto
  then show ?thesis
    by (simp add: a verdict_step_def)
qed

text \<open>
  Claim C1, as amended. For all statements, balance sheets and profiles the compounding
  score lies between 0 and 10; when the financial statements are not empty the verdict
  is true exactly when the score is at least 5; the verdict is unknown exactly when the
  statements are empty or the analysis raises an error, which happens exactly when the
  debt-to-equity or the profit-margin field of the profile holds a non-empty text instead
  of a number; and whenever the verdict is unknown the result is the fallback: score 0,
  all metrics unknown, and the single warning "Insufficient financial data for
  compounding analysis".
\<close>

theorem compounding_verdict:
  "0 \<le> compounding_score (analyze_profit_compounding financials balance_sheet info) \<and>
   compounding_score (analyze_profit_compounding financials balance_sheet info) \<le> 10 \<and>
   (\<not> frame_empty financials \<longrightarrow>
      (is_compounding (analyze_profit_compounding financials balance_sheet info) = Some True
       \<longleftrightarrow> 5 \<le> compounding_score (analyze_profit_compounding financials balance_sheet info))) \<and>
   (is_compounding (analyze_profit_compounding financials balance_sheet info) = None \<longleftrightarrow>
      frame_empty financials \<or>
      (\<exists>s. s \<noteq> [] \<and> info ''debtToEquity'' = Some (PyStr s)) \<or>
      (\<exists>s. s \<noteq> [] \<and> info ''profitMargins'' = Some (PyStr s))) \<and>
   (is_compounding (analyze_profit_compounding financials balance_sheet info) = None \<longrightarrow>
      analyze_profit_compounding financials balance_sheet info = get_fallback_analysis)"
proof (cases "analyze_body financials balance_sheet info")
  case (Inl e)
  then have "\<exists>e. analyze_body financials balance_sheet info = Inl e" by blast
  then have r: "\<not> frame_empty financials \<and>
     ((\<exists>s. s \<noteq> [] \<and> info ''debtToEquity'' = Some (PyStr s)) \<or>
      (\<exists>s. s \<noteq> [] \<and> info ''profitMargins'' = Some (PyStr s)))"
    using analyze_body_raises [of financials balance_sheet info] by blast
  have "analyze_profit_compounding financials balance_sheet info = get_fallback_analysis"
    using Inl by (simp add: analyze_profit_compounding_def)
  then show ?thesis using r by (auto simp add: get_fallback_analysis_def)
next
  case (Inr a)
  then have eq: "analyze_profit_compounding financials balance_sheet info = a"
    by (simp add: analyze_profit_compounding_def)
  have nr: "\<not> (\<exists>e. analyze_body financials balance_sheet info = Inl e)" using Inr by simp
  show ?thesis
  proof (cases "frame_empty financials")
    case True
    then have "a = get_fallback_analysis" using Inr by (simp add: analyze_body_def)
    then show ?thesis using eq True by (simp add: get_fallback_analysis_def)
  next
    case False
    have nr': "\<not> ((\<exists>s. s \<noteq> [] \<and> info ''debtToEquity'' = Some (PyStr s)) \<or>
      (\<exists>s. s \<noteq> [] \<and> info ''profitMargins'' = Some (PyStr s)))"
      using nr False analyze_body_raises [of financials balance_sheet info] by blast
    from analyze_body_result [OF False Inr] nr' False show ?thesis
      unfolding eq by auto
  qed
qed

lemma sample_score:
  "compounding_score (analyze_profit_compounding sample_financials sample_balance_sheet sample_profile) = 10"
  by (simp add: analyze_profit_compounding_def analyze_body_def sample_financials_def
      sample_balance_sheet_def sample_profile_def frame_empty_def in_index_def loc_def loc_dropna_def
      revenue_step_def profit_step_def roe_step_def retained_step_def debt_step_def margin_step_def
      verdict_step_def net_income_of_def first_key_def net_income_keys_def stockholder_equity_keys_def
      retained_earnings_keys_def avg_growth_def fl_mean_def dropna_def fl_sum_def fl_sub_def
      common_dates_def roe_values_of_def initial_analysis_def info_get_def Let_def)

theorem compounding_verdict_witness:
  "compounding_score (analyze_profit_compounding sample_financials sample_balance_sheet sample_profile) = 10 \<and>
   is_compounding (analyze_profit_compounding sample_financials sample_balance_sheet sample_profile) = Some True \<and>
   analyze_profit_compounding no_statements sample_balance_sheet sample_profile = get_fallback_analysis"
proof -
  have 1: "\<not> frame_empty sample_financials"
    by (simp add: sample_financials_def frame_empty_def)
  have 2: "frame_empty no_statements"
    by (simp add: no_statements_def frame_empty_def)
  show ?thesis
    using compounding_verdict [of sample_financials sample_balance_sheet sample_profile]
      compounding_verdict [of no_statements sample_balance_sheet sample_profile]
      sample_score 1 2
    by simp
qed

text \<open>
  With statements that are not empty and the text \<^verbatim>\<open>Infinity\<close> as debt to equity, the
  comparison in the debt step raises and the verdict is unknown.
\<close>

theorem compounding_verdict_counterexample:
  "\<not> frame_empty sample_financials \<and>
   is_compounding (analyze_profit_compounding sample_financials sample_balance_sheet
     (Map.empty(''debtToEquity'' \<mapsto> PyStr ''Infinity''))) = None"
  by (simp add: analyze_profit_compounding_def analyze_body_def sample_financials_def
      frame_empty_def debt_step_def info_get_def get_fallback_analysis_def Let_def)

section \<open>The DCF fair value\<close>

subsection \<open>Rounding is monotone\<close>

text \<open>
  Rounding to the nearest integer, ties to even, is monotone and leaves integers alone.
  A positive real lies in the binade of its exponent, and its rounded value stays in the
  closure of that binade; so rounding to a double is monotone on the reals that are not
  negative, sends every real from \<open>double_limit\<close> on to infinity, and leaves the powers
  of two in the normal range alone.
\<close>

lemma round_half_even_bounds:
  "of_int (round_half_even q) \<le> q + 1 / 2" "q - 1 / 2 \<le> of_int (round_half_even q)"
  "of_int \<lfloor>q\<rfloor> \<le> (of_int (round_half_even q) :: real)"
  "round_half_even q \<le> \<lfloor>q\<rfloor> + 1"
  unfolding round_half_even_def Let_def by (auto; linarith)+

lemma round_half_even_int [simp]: "round_half_even (of_int n) = n"
  by (simp add: round_half_even_def)

lemma round_half_even_mono:
  assumes "q \<le> q'"
  shows "round_half_even q \<le> round_half_even q'"
proof (cases "\<lfloor>q\<rfloor> = \<lfloor>q'\<rfloor>")
  case True
  then show ?thesis using assms
    unfolding round_half_even_def Let_def by auto
next
  case False
  then have "\<lfloor>q\<rfloor> < \<lfloor>q'\<rfloor>" using assms floor_mono [OF assms] by linarith
  then have "round_half_even q \<le> \<lfloor>q'\<rfloor>"
    using round_half_even_bounds(4) [of q] by linarith
  moreover have "\<lfloor>q'\<rfloor> \<le> round_half_even q'"
    using round_half_even_bounds(3) [of q'] by linarith
  ultimately show ?thesis by linarith
qed

lemma ulp_pos [simp]: "0 < ulp_of x"
  by (simp add: ulp_of_def)

lemma ulp_nonneg [simp]: "0 \<le> ulp_of x"
  by (simp add: ulp_of_def)

lemma exponent_upper:
  assumes "0 < x"
  shows "x < 2 powr (of_int (exponent_of x) + 1)"
proof -
  have "log 2 x < of_int \<lfloor>log 2 x\<rfloor> + 1" by linarith
  also have "\<dots> \<le> of_int (exponent_of x) + 1" by (simp add: exponent_of_def)
  finally have "(2::real) powr (log 2 x) < 2 powr (of_int (exponent_of x) + 1)"
    by (intro powr_less_mono) simp_all
  then show ?thesis using assms by simp
qed

lemma exponent_lower:
  assumes "0 < x" "- 1022 < exponent_of x"
  shows "2 powr (of_int (exponent_of x)) \<le> x"
proof -
  have "exponent_of x = \<lfloor>log 2 x\<rfloor>" using assms(2) by (simp add: exponent_of_def max_def split: if_splits)
  then have "of_int (exponent_of x) \<le> log 2 x" by simp
  then have "(2::real) powr (of_int (exponent_of x)) \<le> 2 powr (log 2 x)"
    by (intro powr_mono) simp_all
  then show ?thesis using assms by simp
qed

lemma exponent_mono:
  assumes "0 < x" "x \<le> y"
  shows "exponent_of x \<le> exponent_of y"
proof -
  have "log 2 x \<le> log 2 y" using assms by simp
  then have "\<lfloor>log 2 x\<rfloor> \<le> \<lfloor>log 2 y\<rfloor>" by (rule floor_mono)
  then show ?thesis by (simp add: exponent_of_def)
qed

lemma ulp_scale:
  "(2::real) powr (of_int e + 1) = 2 ^ 53 * 2 powr (of_int e - 52)"
  "(2::real) powr (of_int e) = 2 ^ 52 * 2 powr (of_int e - 52)"
proof -
  have "(2::real) powr (of_int e + 1) = 2 powr (53 + (of_int e - 52))"
    by (simp add: algebra_simps)
  also have "\<dots> = 2 powr 53 * 2 powr (of_int e - 52)" by (rule powr_add)
  finally show "(2::real) powr (of_int e + 1) = 2 ^ 53 * 2 powr (of_int e - 52)" by simp
  have "(2::real) powr (of_int e) = 2 powr (52 + (of_int e - 52))" by simp
  also have "\<dots> = 2 powr 52 * 2 powr (of_int e - 52)" by (rule powr_add)
  finally show "(2::real) powr (of_int e) = 2 ^ 52 * 2 powr (of_int e - 52)" by simp
qed

lemma nearest_upper:
  assumes "0 < x"
  shows "nearest x \<le> 2 powr (of_int (exponent_of x) + 1)"
proof -
  have "x / ulp_of x \<le> 2 ^ 53"
    using exponent_upper [OF assms] ulp_scale(1) [of "exponent_of x"]
    by (simp add: ulp_of_def field_simps)
  then have "x / ulp_of x \<le> of_int (2 ^ 53)" by simp
  then have "round_half_even (x / ulp_of x) \<le> round_half_even (of_int (2 ^ 53))"
    by (rule round_half_even_mono)
  then have "round_half_even (x / ulp_of x) \<le> 2 ^ 53" by (simp only: round_half_even_int)
  then have "(of_int (round_half_even (x / ulp_of x)) :: real) \<le> 2 ^ 53"
    by (metis of_int_le_iff of_int_numeral of_int_power)
  then have "nearest x \<le> 2 ^ 53 * ulp_of x"
    unfolding nearest_def by (simp add: mult_right_mono)
  then show ?thesis using ulp_scale(1) [of "exponent_of x"] by (simp add: ulp_of_def)
qed

lemma nearest_lower:
  assumes "0 < x" "- 1022 < exponent_of x"
  shows "2 powr (of_int (exponent_of x)) \<le> nearest x"
proof -
  have "2 ^ 52 \<le> x / ulp_of x"
    using exponent_lower [OF assms] ulp_scale(2) [of "exponent_of x"]
    by (simp add: ulp_of_def field_simps)
  then have "of_int (2 ^ 52) \<le> x / ulp_of x" by simp
  then have "round_half_even (of_int (2 ^ 52)) \<le> round_half_even (x / ulp_of x)"
    by (rule round_half_even_mono)
  then have "2 ^ 52 \<le> round_half_even (x / ulp_of x)" by (simp only: round_half_even_int)
  then have "(2 ^ 52 :: real) \<le> of_int (round_half_even (x / ulp_of x))"
    by (metis of_int_le_iff of_int_numeral of_int_power)
  then have "2 ^ 52 * ulp_of x \<le> nearest x"
    unfolding nearest_def by (simp add: mult_right_mono)
  then show ?thesis using ulp_scale(2) [of "exponent_of x"] by (simp add: ulp_of_def)
qed

lemma nearest_mono:
  assumes "0 < x" "x \<le> y"
  shows "nearest x \<le> nearest y"
proof (cases "exponent_of x = exponent_of y")
  case True
  then have u: "ulp_of x = ulp_of y" by (simp add: ulp_of_def)
  have "x / ulp_of y \<le> y / ulp_of y" using assms(2) by (intro divide_right_mono) simp_all
  then have "round_half_even (x / ulp_of y) \<le> round_half_even (y / ulp_of y)"
    by (rule round_half_even_mono)
  then show ?thesis unfolding nearest_def u by (simp add: mult_right_mono)
next
  case False
  then have lt: "exponent_of x < exponent_of y" using exponent_mono [OF assms] by simp
  have "- 1022 \<le> exponent_of x" by (simp add: exponent_of_def)
  then have y: "- 1022 < exponent_of y" using lt by simp
  have ypos: "0 < y" using assms by simp
  have "nearest x \<le> 2 powr (of_int (exponent_of x) + 1)" by (rule nearest_upper [OF assms(1)])
  also have "\<dots> \<le> 2 powr (of_int (exponent_of y))"
    using lt by simp
  also have "\<dots> \<le> nearest y" by (rule nearest_lower [OF ypos y])
  finally show ?thesis .
qed

lemma nearest_nonneg: "0 < x \<Longrightarrow> 0 \<le> nearest x"
proof -
  assume "0 < x"
  then have "0 \<le> x / ulp_of x" by simp
  then have "round_half_even (of_int 0) \<le> round_half_even (x / ulp_of x)"
    by (intro round_half_even_mono) simp
  then have "0 \<le> round_half_even (x / ulp_of x)" by (simp only: round_half_even_int)
  then show ?thesis unfolding nearest_def by simp
qed

lemma fl_le_trans: "fl_le a b \<Longrightarrow> fl_le b c \<Longrightarrow> fl_le a c"
  by (cases a; cases b; cases c) auto

lemma fl_le_nonneg_cases:
  "fl_le (Fin a) v \<longleftrightarrow> v = PInf \<or> (\<exists>r. v = Fin r \<and> a \<le> r)"
  by (cases v) auto

lemma round_pos_cases:
  "0 < x \<Longrightarrow> round_pos x = PInf \<or> (\<exists>r. round_pos x = Fin r \<and> 0 \<le> r)"
  by (simp add: round_pos_def nearest_nonneg)

lemma round_double_nonneg: "0 \<le> x \<Longrightarrow> fl_le (Fin 0) (round_double x)"
  using round_pos_cases [of x] by (auto simp add: round_double_def)

lemma round_pos_mono:
  assumes "0 < x" "x \<le> y"
  shows "fl_le (round_pos x) (round_pos y)"
  using assms nearest_mono [OF assms] by (auto simp add: round_pos_def)

lemma round_double_mono:
  assumes "0 \<le> x" "x \<le> y"
  shows "fl_le (round_double x) (round_double y)"
proof (cases "x = 0")
  case True
  then show ?thesis using round_double_nonneg [of y] assms by (simp add: round_double_def)
next
  case False
  then have "0 < x" using assms by simp
  then show ?thesis using round_pos_mono [of x y] assms by (simp add: round_double_def)
qed

lemma round_double_overflow: "double_limit \<le> x \<Longrightarrow> round_double x = PInf"
  using double_limit_pos by (simp add: round_double_def round_pos_def)

lemma exponent_pow2:
  assumes "- 1022 \<le> k"
  shows "exponent_of (2 powr of_int k) = k"
  using assms by (simp add: exponent_of_def)

lemma nearest_pow2:
  assumes "- 1022 \<le> k"
  shows "nearest (2 powr of_int k) = 2 powr of_int k"
proof -
  have u: "ulp_of (2 powr of_int k) = 2 powr (of_int k - 52)"
    by (simp add: ulp_of_def exponent_pow2 [OF assms])
  have "(2::real) powr of_int k / 2 powr (of_int k - 52) = 2 ^ 52"
    using ulp_scale(2) [of k] by simp
  then have q: "(2::real) powr of_int k / ulp_of (2 powr of_int k) = of_int (2 ^ 52)"
    by (simp add: u)
  have "round_half_even ((2::real) powr of_int k / ulp_of (2 powr of_int k)) = 2 ^ 52"
    unfolding q by (rule round_half_even_int)
  then show ?thesis
    unfolding nearest_def using u ulp_scale(2) [of k] by simp
qed

lemma round_double_pow2:
  assumes "- 1022 \<le> k" "k \<le> 1023"
  shows "round_double (2 powr of_int k) = Fin (2 powr of_int k)"
proof -
  have "(2::real) powr of_int k \<le> 2 powr of_int 1023"
    using assms(2) by (intro powr_mono) simp_all
  also have "\<dots> = 2 ^ 1023" by simp
  also have "\<dots> < double_limit" by (simp add: double_limit_def)
  finally have "\<not> double_limit \<le> 2 powr of_int k" by simp
  then show ?thesis
    by (simp add: round_double_def round_pos_def nearest_pow2 [OF assms(1)])
qed

lemma round_double_fixed:
  "round_double 1 = Fin 1" "round_double 2 = Fin 2" "round_double 32 = Fin 32"
  "round_double (1 / 8) = Fin (1 / 8)" "round_double (1 / 16) = Fin (1 / 16)"
  "round_double (1 / 32) = Fin (1 / 32)" "round_double (2 ^ 1023) = Fin (2 ^ 1023)"
  using round_double_pow2 [of 0] round_double_pow2 [of 1] round_double_pow2 [of 5]
    round_double_pow2 [of "- 3"] round_double_pow2 [of "- 4"] round_double_pow2 [of "- 5"]
    round_double_pow2 [of 1023]
  by (simp_all add: powr_minus)

lemma round_double_between:
  assumes "round_double a = Fin a" "round_double b = Fin b" "0 \<le> a" "a \<le> x" "x \<le> b"
  shows "\<exists>r. round_double x = Fin r \<and> a \<le> r \<and> r \<le> b"
proof -
  have 1: "fl_le (Fin a) (round_double x)"
    using round_double_mono [OF assms(3,4)] assms(1) by simp
  have "0 \<le> x" using assms(3,4) by simp
  then have 2: "fl_le (round_double x) (Fin b)"
    using round_double_mono [OF _ assms(5)] assms(2) by simp
  show ?thesis using 1 2 by (cases "round_double x") auto
qed

subsection \<open>The float operations are monotone\<close>

text \<open>
  On floats that are zero, positive or infinite, multiplying by and dividing by a
  positive finite float, and adding, keep the order.
\<close>

lemma fr_mul_mono:
  assumes "fl_le (Fin 0) a" "fl_le a b" "0 < k"
  shows "fl_le (fr_mul a (Fin k)) (fr_mul b (Fin k))"
proof (cases a)
  case (Fin x)
  then have x: "0 \<le> x" using assms(1) by simp
  show ?thesis
  proof (cases b)
    case (Fin y)
    then have "x * k \<le> y * k" "0 \<le> x * k" using assms \<open>a = Fin x\<close> x by simp_all
    then show ?thesis using Fin \<open>a = Fin x\<close>
      by (simp add: fr_mul_def round_double_mono)
  next
    case PInf
    have "fl_le (Fin 0) (round_double (x * k))"
      using x assms(3) by (intro round_double_nonneg) simp
    then show ?thesis using PInf \<open>a = Fin x\<close> assms(3)
      by (cases "round_double (x * k)") (simp_all add: fr_mul_def)
  qed (use assms Fin in simp_all)
next
  case PInf
  then have "b = PInf" using assms(2) by (cases b) simp_all
  then show ?thesis using PInf assms(3) by (simp add: fr_mul_def)
qed (use assms in simp_all)

lemma fr_div_mono:
  assumes "fl_le (Fin 0) a" "fl_le a b" "0 < k"
  shows "fl_le (fr_div a (Fin k)) (fr_div b (Fin k))"
proof (cases a)
  case (Fin x)
  then have x: "0 \<le> x" using assms(1) by simp
  show ?thesis
  proof (cases b)
    case (Fin y)
    then have "x / k \<le> y / k" "0 \<le> x / k" using assms \<open>a = Fin x\<close> x
      by (simp_all add: divide_right_mono)
    then show ?thesis using Fin \<open>a = Fin x\<close> assms(3)
      by (simp add: fr_div_def round_double_mono)
  next
    case PInf
    have "fl_le (Fin 0) (round_double (x / k))"
      using x assms(3) by (intro round_double_nonneg) simp
    then show ?thesis using PInf \<open>a = Fin x\<close> assms(3)
      by (cases "round_double (x / k)") (simp_all add: fr_div_def)
  qed (use assms Fin in simp_all)
next
  case PInf
  then have "b = PInf" using assms(2) by (cases b) simp_all
  then show ?thesis using PInf assms(3) by (simp add: fr_div_def)
qed (use assms in simp_all)

lemma fr_add_mono:
  assumes "fl_le (Fin 0) a" "fl_le a b" "fl_le (Fin 0) c" "fl_le c d"
  shows "fl_le (fr_add a c) (fr_add b d)"
proof -
  have nn: "fl_le (Fin 0) (round_double (x + y))" if "0 \<le> x" "0 \<le> y" for x y
    using that by (intro round_double_nonneg) simp
  have top: "fl_le v PInf" if "fl_le (Fin 0) v" for v
    using that by (cases v) simp_all
  from assms(1) consider x where "a = Fin x" "0 \<le> x" | "a = PInf"
    by (cases a) auto
  then show ?thesis
  proof cases
    case 1
    from assms(3) consider z where "c = Fin z" "0 \<le> z" | "c = PInf"
      by (cases c) auto
    then show ?thesis
    proof cases
      case c: 1
      from assms(2) 1 consider y where "b = Fin y" "x \<le> y" | "b = PInf"
        by (cases b) auto
      then show ?thesis
      proof cases
        case b: 1
        from assms(4) c consider w where "d = Fin w" "z \<le> w" | "d = PInf"
          by (cases d) auto
        then show ?thesis
        proof cases
          case d: 1
          have "fl_le (round_double (x + z)) (round_double (y + w))"
            using 1 c b d by (intro round_double_mono) simp_all
          then show ?thesis using 1 c b d by (simp add: fr_add_def)
        next
          case 2
          then show ?thesis using 1 c b top [OF nn [of x z]] by (simp add: fr_add_def)
        qed
      next
        case 2
        have "fl_le (Fin 0) d" using assms(3,4) by (rule fl_le_trans)
        then have "fr_add b d = PInf" using 2 by (cases d) (simp_all add: fr_add_def)
        then show ?thesis using 1 c top [OF nn [of x z]] by (simp add: fr_add_def)
      qed
    next
      case 2
      then have d: "d = PInf" using assms(4) by (cases d) simp_all
      have "fl_le (Fin 0) b" using assms(1,2) by (rule fl_le_trans)
      then have "fr_add b d = PInf" using d by (cases b) (simp_all add: fr_add_def)
      then show ?thesis using 1 2 by (simp add: fr_add_def)
    qed
  next
    case 2
    then have b: "b = PInf" using assms(2) by (cases b) simp_all
    have c: "fr_add a c = PInf" using 2 assms(3) by (cases c) (simp_all add: fr_add_def)
    have "fl_le (Fin 0) d" using assms(3,4) by (rule fl_le_trans)
    then have "fr_add b d = PInf" using b by (cases d) (simp_all add: fr_add_def)
    then show ?thesis using c by simp
  qed
qed

text \<open>
  The constants of the valuation: each growth and discount factor is a finite float
  between 1 and 32, and the spread between the discount rate and the terminal growth
  rate is a finite float between 1/32 and 1/8.
\<close>

lemma one_plus_bounds:
  assumes "0 \<le> rate" "rate \<le> 1"
  shows "\<exists>k. one_plus rate = Fin k \<and> 1 \<le> k \<and> k \<le> 2"
proof -
  have z: "round_double 0 = Fin 0" by (simp add: round_double_def)
  from round_double_between [OF z round_double_fixed(1) _ assms]
  obtain r where r: "round_double rate = Fin r" "0 \<le> r" "r \<le> 1" by auto
  have "\<exists>k. round_double (1 + r) = Fin k \<and> 1 \<le> k \<and> k \<le> 2"
    using r by (intro round_double_between [OF round_double_fixed(1,2)]) simp_all
  then show ?thesis using r by (simp add: one_plus_def fr_add_def)
qed

lemma fr_pow_bounds:
  assumes "1 \<le> k" "k \<le> 2" "0 < n" "n \<le> 5"
  shows "\<exists>m. fr_pow (Fin k) n = Fin m \<and> 1 \<le> m \<and> m \<le> 32"
proof -
  have "k ^ n \<le> 2 ^ n" using assms by (intro power_mono) simp_all
  also have "\<dots> \<le> (2::real) ^ 5" using assms(4) by (intro power_increasing) simp_all
  finally have up: "k ^ n \<le> 32" by simp
  have lo: "1 \<le> k ^ n" using assms(1) by (rule one_le_power)
  have "\<exists>m. round_double (k ^ n) = Fin m \<and> 1 \<le> m \<and> m \<le> 32"
    using lo up by (intro round_double_between [OF round_double_fixed(1,3)]) simp_all
  then show ?thesis using assms(3) by (simp add: fr_pow_def)
qed

lemma growth_factor:
  assumes "0 < n" "n \<le> 5"
  shows "\<exists>m. fr_pow (one_plus growth_rate) n = Fin m \<and> 1 \<le> m \<and> m \<le> 32"
proof -
  obtain k where "one_plus growth_rate = Fin k" "1 \<le> k" "k \<le> 2"
    using one_plus_bounds [of growth_rate] by (auto simp add: growth_rate_def)
  then show ?thesis using fr_pow_bounds [OF _ _ assms, of k] by simp
qed

lemma discount_factor:
  assumes "0 < n" "n \<le> 5"
  shows "\<exists>m. fr_pow (one_plus discount_rate) n = Fin m \<and> 1 \<le> m \<and> m \<le> 32"
proof -
  obtain k where "one_plus discount_rate = Fin k" "1 \<le> k" "k \<le> 2"
    using one_plus_bounds [of discount_rate] by (auto simp add: discount_rate_def)
  then show ?thesis using fr_pow_bounds [OF _ _ assms, of k] by simp
qed

lemma terminal_factor: "\<exists>k. one_plus terminal_growth = Fin k \<and> 1 \<le> k \<and> k \<le> 2"
  using one_plus_bounds [of terminal_growth] by (simp add: terminal_growth_def)

lemma rate_spread:
  "\<exists>d. fr_sub (round_double discount_rate) (round_double terminal_growth) = Fin d \<and>
       1 / 32 \<le> d \<and> d \<le> 1 / 8"
proof -
  have z: "round_double 0 = Fin 0" by (simp add: round_double_def)
  obtain a where a: "round_double discount_rate = Fin a" "1 / 16 \<le> a" "a \<le> 1 / 8"
    using round_double_between [OF round_double_fixed(5,4), of discount_rate]
    by (auto simp add: discount_rate_def)
  obtain b where b: "round_double terminal_growth = Fin b" "0 \<le> b" "b \<le> 1 / 32"
    using round_double_between [OF z round_double_fixed(6), of terminal_growth]
    by (auto simp add: terminal_growth_def)
  have "\<exists>d. round_double (a - b) = Fin d \<and> 1 / 32 \<le> d \<and> d \<le> 1 / 8"
    using a b by (intro round_double_between [OF round_double_fixed(6,4)]) simp_all
  then show ?thesis using a b by (simp add: fr_sub_def)
qed

lemma fr_mul_nonneg:
  assumes "fl_le (Fin 0) a" "0 < k"
  shows "fl_le (Fin 0) (fr_mul a (Fin k))"
proof -
  have "fr_mul (Fin 0) (Fin k) = Fin 0" by (simp add: fr_mul_def round_double_def)
  then show ?thesis using fr_mul_mono [of "Fin 0" a k] assms by simp
qed

lemma fr_div_nonneg:
  assumes "fl_le (Fin 0) a" "0 < k"
  shows "fl_le (Fin 0) (fr_div a (Fin k))"
proof -
  have "fr_div (Fin 0) (Fin k) = Fin 0" using assms(2) by (simp add: fr_div_def round_double_def)
  then show ?thesis using fr_div_mono [of "Fin 0" a k] assms by simp
qed

lemma fr_add_nonneg:
  assumes "fl_le (Fin 0) a" "fl_le (Fin 0) c"
  shows "fl_le (Fin 0) (fr_add a c)"
proof -
  have "fr_add (Fin 0) (Fin 0) = Fin 0" by (simp add: fr_add_def round_double_def)
  then show ?thesis using fr_add_mono [of "Fin 0" a "Fin 0" c] assms by simp
qed

lemma year_term:
  assumes "0 < n" "n \<le> 5" "fl_le (Fin 0) a" "fl_le a b"
  shows "fl_le (Fin 0)
           (fr_div (fr_mul a (fr_pow (one_plus growth_rate) n))
                   (fr_pow (one_plus discount_rate) n)) \<and>
         fl_le (fr_div (fr_mul a (fr_pow (one_plus growth_rate) n))
                       (fr_pow (one_plus discount_rate) n))
               (fr_div (fr_mul b (fr_pow (one_plus growth_rate) n))
                       (fr_pow (one_plus discount_rate) n))"
proof -
  obtain g where g: "fr_pow (one_plus growth_rate) n = Fin g" "1 \<le> g"
    using growth_factor [OF assms(1,2)] by auto
  obtain d where d: "fr_pow (one_plus discount_rate) n = Fin d" "1 \<le> d"
    using discount_factor [OF assms(1,2)] by auto
  have gp: "0 < g" and dp: "0 < d" using g d by simp_all
  have 1: "fl_le (Fin 0) (fr_mul a (Fin g))" by (rule fr_mul_nonneg [OF assms(3) gp])
  have 2: "fl_le (fr_mul a (Fin g)) (fr_mul b (Fin g))" by (rule fr_mul_mono [OF assms(3,4) gp])
  show ?thesis
    unfolding g d using fr_div_nonneg [OF 1 dp] fr_div_mono [OF 1 2 dp] by simp
qed

lemma pv_fcf_mono:
  assumes "fl_le (Fin 0) a" "fl_le a b"
  shows "fl_le (Fin 0) (pv_fcf_of a) \<and> fl_le (pv_fcf_of a) (pv_fcf_of b)"
proof -
  note t1 = year_term [OF _ _ assms, of 1, simplified]
  note t2 = year_term [OF _ _ assms, of 2, simplified]
  note t3 = year_term [OF _ _ assms, of 3, simplified]
  note t4 = year_term [OF _ _ assms, of 4, simplified]
  note t5 = year_term [OF _ _ assms, of 5, simplified]
  have z: "fl_le (Fin 0) (Fin 0)" by simp
  note s1 = fr_add_nonneg [OF z t1 [THEN conjunct1]]
    fr_add_mono [OF z z t1 [THEN conjunct1] t1 [THEN conjunct2]]
  note s2 = fr_add_nonneg [OF s1(1) t2 [THEN conjunct1]]
    fr_add_mono [OF s1 t2 [THEN conjunct1] t2 [THEN conjunct2]]
  note s3 = fr_add_nonneg [OF s2(1) t3 [THEN conjunct1]]
    fr_add_mono [OF s2 t3 [THEN conjunct1] t3 [THEN conjunct2]]
  note s4 = fr_add_nonneg [OF s3(1) t4 [THEN conjunct1]]
    fr_add_mono [OF s3 t4 [THEN conjunct1] t4 [THEN conjunct2]]
  note s5 = fr_add_nonneg [OF s4(1) t5 [THEN conjunct1]]
    fr_add_mono [OF s4 t5 [THEN conjunct1] t5 [THEN conjunct2]]
  show ?thesis using s5 by (simp add: pv_fcf_of_def)
qed

lemma pv_terminal_mono:
  assumes "fl_le (Fin 0) a" "fl_le a b"
  shows "fl_le (Fin 0)
           (fr_div (fr_div (fr_mul (fr_mul a (fr_pow (one_plus growth_rate) 5))
                                   (one_plus terminal_growth))
                      (fr_sub (round_double discount_rate) (round_double terminal_growth)))
                   (fr_pow (one_plus discount_rate) 5)) \<and>
         fl_le (fr_div (fr_div (fr_mul (fr_mul a (fr_pow (one_plus growth_rate) 5))
                                   (one_plus terminal_growth))
                      (fr_sub (round_double discount_rate) (round_double terminal_growth)))
                   (fr_pow (one_plus discount_rate) 5))
               (fr_div (fr_div (fr_mul (fr_mul b (fr_pow (one_plus growth_rate) 5))
                                   (one_plus terminal_growth))
                      (fr_sub (round_double discount_rate) (round_double terminal_growth)))
                   (fr_pow (one_plus discount_rate) 5))"
proof -
  obtain g where g: "fr_pow (one_plus growth_rate) 5 = Fin g" "1 \<le> g"
    using growth_factor [of 5] by auto
  obtain d where d: "fr_pow (one_plus discount_rate) 5 = Fin d" "1 \<le> d"
    using discount_factor [of 5] by auto
  obtain t where t: "one_plus terminal_growth = Fin t" "1 \<le> t"
    using terminal_factor by auto
  obtain r where r: "fr_sub (round_double discount_rate) (round_double terminal_growth) = Fin r"
    "1 / 32 \<le> r" using rate_spread by auto
  have gp: "0 < g" and dp: "0 < d" and tp: "0 < t" and rp: "0 < r" using g d t r by simp_all
  note 1 = fr_mul_nonneg [OF assms(1) gp] fr_mul_mono [OF assms gp]
  note 2 = fr_mul_nonneg [OF 1(1) tp] fr_mul_mono [OF 1 tp]
  note 3 = fr_div_nonneg [OF 2(1) rp] fr_div_mono [OF 2 rp]
  note 4 = fr_div_nonneg [OF 3(1) dp] fr_div_mono [OF 3 dp]
  show ?thesis unfolding g d t r using 4 by simp
qed

lemma enterprise_value_mono:
  assumes "fl_le (Fin 0) a" "fl_le a b"
  shows "fl_le (Fin 0) (enterprise_value_of a) \<and>
         fl_le (enterprise_value_of a) (enterprise_value_of b)"
proof -
  note p = pv_fcf_mono [OF assms]
  note t = pv_terminal_mono [OF assms]
  show ?thesis
    unfolding enterprise_value_of_def Let_def
    using fr_add_nonneg [OF p [THEN conjunct1] t [THEN conjunct1]]
      fr_add_mono [OF p [THEN conjunct1] p [THEN conjunct2] t [THEN conjunct1] t [THEN conjunct2]]
    by simp
qed

lemma to_double_positive:
  assumes "is_positive v" "\<not> is_huge v"
  shows "\<exists>k. to_double v = Inr (Fin k) \<and> 0 < k"
proof (cases v)
  case (PyInt n)
  then have n: "0 < n" "\<not> double_limit \<le> real_of_int n"
    using assms by (simp_all add: is_positive_def is_huge_def)
  then have "1 \<le> real_of_int n" by simp
  then have "fl_le (round_double 1) (round_double (real_of_int n))"
    by (intro round_double_mono) simp_all
  then have 1: "fl_le (Fin 1) (round_double (real_of_int n))"
    by (simp add: round_double_fixed)
  have "round_double (real_of_int n) = Fin (nearest (real_of_int n))"
    using n by (simp add: round_double_def round_pos_def)
  then show ?thesis using 1 n PyInt by auto
qed (use assms in \<open>simp_all add: is_positive_def\<close>)

lemma dcf_value_of_fcf:
  assumes "recent_fcf_of cash_flow info = Inr (Some (Fin f))" "0 < f"
    "to_double (info_get info ''sharesOutstanding'' (PyNum 0)) = Inr (Fin k)" "0 < k"
  shows "calculate_dcf_value cash_flow info = Some (fr_div (enterprise_value_of (Fin f)) (Fin k))"
proof -
  have "truthy (info_get info ''sharesOutstanding'' (PyNum 0))"
    using assms(3,4) by (cases "info_get info ''sharesOutstanding'' (PyNum 0)")
      (auto simp add: round_double_def split: if_splits)
  then show ?thesis
    using assms by (simp add: calculate_dcf_value_def calculate_dcf_body_def fl_div_py_def Let_def)
qed

text \<open>
  Claim C4, as amended. For a fixed positive share count that fits a float and two
  positive most recent free cash flows, the smaller cash flow never gives the larger
  DCF fair value per share: both values are known and the value of the smaller cash
  flow is at most the value of the larger one, all other inputs being the same. The
  order is not strict, since the values are floats: different cash flows can give the
  same value.
\<close>

theorem dcf_non_decreasing:
  assumes "recent_fcf_of cash_flow1 info = Inr (Some (Fin f1))"
    and "recent_fcf_of cash_flow2 info = Inr (Some (Fin f2))"
    and "0 < f1" and "f1 \<le> f2"
    and "is_positive (info_get info ''sharesOutstanding'' (PyNum 0))"
    and "\<not> is_huge (info_get info ''sharesOutstanding'' (PyNum 0))"
  shows "\<exists>v1 v2. calculate_dcf_value cash_flow1 info = Some v1 \<and>
                 calculate_dcf_value cash_flow2 info = Some v2 \<and> fl_le v1 v2"
proof -
  obtain k where k: "to_double (info_get info ''sharesOutstanding'' (PyNum 0)) = Inr (Fin k)"
    "0 < k" using to_double_positive [OF assms(5,6)] by auto
  have f2: "0 < f2" using assms(3,4) by simp
  have v1: "calculate_dcf_value cash_flow1 info =
      Some (fr_div (enterprise_value_of (Fin f1)) (Fin k))"
    by (rule dcf_value_of_fcf [OF assms(1,3) k])
  have v2: "calculate_dcf_value cash_flow2 info =
      Some (fr_div (enterprise_value_of (Fin f2)) (Fin k))"
    by (rule dcf_value_of_fcf [OF assms(2) f2 k])
  have a: "fl_le (Fin 0) (Fin f1)" "fl_le (Fin f1) (Fin f2)" using assms(3,4) by simp_all
  note ev = enterprise_value_mono [OF a]
  have "fl_le (fr_div (enterprise_value_of (Fin f1)) (Fin k))
              (fr_div (enterprise_value_of (Fin f2)) (Fin k))"
    by (rule fr_div_mono [OF ev [THEN conjunct1] ev [THEN conjunct2] k(2)])
  with v1 v2 show ?thesis by blast
qed

theorem dcf_non_decreasing_witness:
  "\<exists>v1 v2. calculate_dcf_value sample_cash_flow shares_info = Some v1 \<and>
           calculate_dcf_value doubled_cash_flow shares_info = Some v2 \<and> fl_le v1 v2"
proof -
  have 1: "recent_fcf_of sample_cash_flow shares_info = Inr (Some (Fin 100))"
    by (simp add: recent_fcf_of_def sample_cash_flow_def frame_empty_def in_index_def loc_def)
  have 2: "recent_fcf_of doubled_cash_flow shares_info = Inr (Some (Fin 200))"
    by (simp add: recent_fcf_of_def doubled_cash_flow_def frame_empty_def in_index_def loc_def)
  have 3: "is_positive (info_get shares_info ''sharesOutstanding'' (PyNum 0))"
    by (simp add: shares_info_def info_get_def is_positive_def)
  have 4: "\<not> is_huge (info_get shares_info ''sharesOutstanding'' (PyNum 0))"
    by (simp add: shares_info_def info_get_def is_huge_def)
  show ?thesis
    by (rule dcf_non_decreasing [OF 1 2 _ _ 3 4]) simp_all
qed

text \<open>
  From \<open>2 ^ 1023\<close> on, the terminal value exceeds the range of a float and the enterprise
  value is infinite.
\<close>

lemma enterprise_value_overflow:
  assumes "2 ^ 1023 \<le> f"
  shows "enterprise_value_of (Fin f) = PInf"
proof -
  obtain g where g: "fr_pow (one_plus growth_rate) 5 = Fin g" "1 \<le> g"
    using growth_factor [of 5] by auto
  obtain d where d: "fr_pow (one_plus discount_rate) 5 = Fin d" "1 \<le> d"
    using discount_factor [of 5] by auto
  obtain t where t: "one_plus terminal_growth = Fin t" "1 \<le> t"
    using terminal_factor by auto
  obtain r where r: "fr_sub (round_double discount_rate) (round_double terminal_growth) = Fin r"
    "1 / 32 \<le> r" "r \<le> 1 / 8" using rate_spread by auto
  have big: "fl_le (Fin (2 ^ 1023)) (round_double (x * c))" if "2 ^ 1023 \<le> x" "1 \<le> c" for x c
  proof -
    have "2 ^ 1023 * 1 \<le> x * c" using that by (intro mult_mono) simp_all
    then have "fl_le (round_double (2 ^ 1023)) (round_double (x * c))"
      by (intro round_double_mono) simp_all
    then show ?thesis unfolding round_double_fixed(7) .
  qed
  have 1: "fl_le (Fin (2 ^ 1023)) (fr_mul (Fin f) (Fin g))"
    using big [OF assms g(2)] by (simp add: fr_mul_def)
  have 2: "fl_le (Fin (2 ^ 1023)) (fr_mul (fr_mul (Fin f) (Fin g)) (Fin t))"
  proof (cases "fr_mul (Fin f) (Fin g)")
    case (Fin x)
    then show ?thesis using 1 big [OF _ t(2), of x] by (simp add: fr_mul_def)
  next
    case PInf
    then show ?thesis using t(2) by (simp add: fr_mul_def)
  qed (use 1 in simp_all)
  have 3: "fr_div (fr_mul (fr_mul (Fin f) (Fin g)) (Fin t)) (Fin r) = PInf"
  proof (cases "fr_mul (fr_mul (Fin f) (Fin g)) (Fin t)")
    case (Fin x)
    then have x: "2 ^ 1023 \<le> x" using 2 by simp
    have rp: "0 < r" using r(2) by simp
    have "2 ^ 1023 * 8 \<le> x / r"
    proof -
      have "2 ^ 1023 * 8 * r \<le> 2 ^ 1023 * 8 * (1 / 8)"
        using r(3) by (intro mult_left_mono) simp_all
      also have "\<dots> \<le> x" using x by simp
      finally show ?thesis using rp by (simp add: pos_le_divide_eq)
    qed
    moreover have "double_limit \<le> 2 ^ 1023 * 8" by (simp add: double_limit_def)
    ultimately have "double_limit \<le> x / r" by linarith
    then have "round_double (x / r) = PInf" by (rule round_double_overflow)
    then show ?thesis using Fin rp by (simp add: fr_div_def)
  next
    case PInf
    then show ?thesis using r(2) by (simp add: fr_div_def)
  qed (use 2 in simp_all)
  have 4: "fr_div PInf (Fin d) = PInf" using d(2) by (simp add: fr_div_def)
  have "fl_le (Fin 0) (Fin f)" using assms by (simp add: order_trans [of 0 "2 ^ 1023"])
  then have "fl_le (Fin 0) (pv_fcf_of (Fin f))"
    using pv_fcf_mono [of "Fin f" "Fin f"] by simp
  then have 5: "fr_add (pv_fcf_of (Fin f)) PInf = PInf"
    by (cases "pv_fcf_of (Fin f)") (simp_all add: fr_add_def)
  show ?thesis
    by (simp add: enterprise_value_of_def Let_def g d t r 3 4 5)
qed

text \<open>
  The cash flows \<open>2 ^ 1023\<close> and \<open>3 * 2 ^ 1022\<close> are floats, the first below the second,
  and with 10 shares both have the fair value infinity: the value of the first is not
  below the value of the second.
\<close>

theorem dcf_strictness_counterexample:
  "(2 ^ 1023 :: real) < 3 * 2 ^ 1022 \<and>
   calculate_dcf_value huge_cash_flow shares_info = Some PInf \<and>
   calculate_dcf_value larger_cash_flow shares_info = Some PInf \<and>
   \<not> fl_less PInf PInf"
proof -
  have 1: "recent_fcf_of huge_cash_flow shares_info = Inr (Some (Fin (2 ^ 1023)))"
    by (simp add: recent_fcf_of_def huge_cash_flow_def frame_empty_def in_index_def loc_def)
  have 2: "recent_fcf_of larger_cash_flow shares_info = Inr (Some (Fin (3 * 2 ^ 1022)))"
    by (simp add: recent_fcf_of_def larger_cash_flow_def frame_empty_def in_index_def loc_def)
  have k: "to_double (info_get shares_info ''sharesOutstanding'' (PyNum 0)) = Inr (Fin 10)"
    by (simp add: shares_info_def info_get_def)
  have e1: "enterprise_value_of (Fin (2 ^ 1023)) = PInf"
    by (rule enterprise_value_overflow) simp
  have e2: "enterprise_value_of (Fin (3 * 2 ^ 1022)) = PInf"
    by (rule enterprise_value_overflow) simp
  have a: "calculate_dcf_value huge_cash_flow shares_info = Some PInf"
    using dcf_value_of_fcf [OF 1 _ k] e1 by (simp add: fr_div_def)
  have b: "calculate_dcf_value larger_cash_flow shares_info = Some PInf"
    using dcf_value_of_fcf [OF 2 _ k] e2 by (simp add: fr_div_def)
  show ?thesis using a b by simp
qed

section \<open>RSI without losses\<close>

text \<open>
  A sum of floats that are all finite and not negative is finite and not negative, and
  it is zero only when every summand is.
\<close>

lemma foldl_fl_add_nonneg:
  assumes "\<forall>x\<in>set xs. \<exists>r. x = Fin r \<and> 0 \<le> r"
  shows "\<exists>t. foldl fl_add (Fin a) xs = Fin (a + t) \<and> 0 \<le> t \<and>
             (t = 0 \<longleftrightarrow> (\<forall>x\<in>set xs. x = Fin 0))"
  using assms
proof (induction xs arbitrary: a)
  case Nil
  then show ?case by simp
next
  case (Cons x xs)
  from Cons.prems obtain r where x: "x = Fin r" and r: "0 \<le> r" by auto
  from Cons.prems have rest: "\<forall>y\<in>set xs. \<exists>r. y = Fin r \<and> 0 \<le> r" by simp
  from Cons.IH [OF rest, of "a + r"] obtain t where
    t: "foldl fl_add (Fin (a + r)) xs = Fin (a + r + t)" "0 \<le> t"
       "t = 0 \<longleftrightarrow> (\<forall>y\<in>set xs. y = Fin 0)" by blast
  have "foldl fl_add (Fin a) (x # xs) = Fin (a + (r + t))"
    using t(1) x by (simp add: add.assoc)
  moreover have "0 \<le> r + t" using r t(2) by simp
  moreover have "r + t = 0 \<longleftrightarrow> (\<forall>y\<in>set (x # xs). y = Fin 0)"
    using r t(2,3) x by auto
  ultimately show ?case by blast
qed

lemma fl_sum_nonneg:
  assumes "\<forall>x\<in>set xs. \<exists>r. x = Fin r \<and> 0 \<le> r"
  shows "\<exists>t. fl_sum xs = Fin t \<and> 0 \<le> t \<and> (t = 0 \<longleftrightarrow> (\<forall>x\<in>set xs. x = Fin 0))"
  using foldl_fl_add_nonneg [OF assms, of 0] by (simp add: fl_sum_def)

lemma length_diff [simp]: "length (diff xs) = length xs"
  by (cases xs) simp_all

lemma gains_nth:
  assumes "j < length hist"
  shows "gains (diff (map Fin hist)) ! j =
           Fin (if j = 0 then 0 else max 0 (hist ! j - hist ! (j - 1)))"
proof (cases hist)
  case Nil
  then show ?thesis using assms by simp
next
  case (Cons x xs)
  show ?thesis
  proof (cases j)
    case 0
    then show ?thesis using Cons by (simp add: gains_def)
  next
    case (Suc i)
    then have "i < length xs" using assms Cons by simp
    then show ?thesis using Cons Suc
      by (cases i) (simp_all add: gains_def fl_sub_def max_def)
  qed
qed

lemma losses_nth:
  assumes "j < length hist"
  shows "losses (diff (map Fin hist)) ! j =
           Fin (if j = 0 then 0 else max 0 (hist ! (j - 1) - hist ! j))"
proof (cases hist)
  case Nil
  then show ?thesis using assms by simp
next
  case (Cons x xs)
  show ?thesis
  proof (cases j)
    case 0
    then show ?thesis using Cons by (simp add: losses_def)
  next
    case (Suc i)
    then have "i < length xs" using assms Cons by simp
    then show ?thesis using Cons Suc
      by (cases i) (simp_all add: losses_def fl_sub_def max_def)
  qed
qed

lemma in_set_drop_nth:
  "x \<in> set (drop k xs) \<longleftrightarrow> (\<exists>j. k \<le> j \<and> j < length xs \<and> xs ! j = x)"
proof
  assume "x \<in> set (drop k xs)"
  then obtain i where i: "i < length (drop k xs)" "drop k xs ! i = x"
    by (auto simp add: in_set_conv_nth)
  then have "k \<le> k + i \<and> k + i < length xs \<and> xs ! (k + i) = x" by auto
  then show "\<exists>j. k \<le> j \<and> j < length xs \<and> xs ! j = x" by blast
next
  assume "\<exists>j. k \<le> j \<and> j < length xs \<and> xs ! j = x"
  then obtain j where j: "k \<le> j" "j < length xs" "xs ! j = x" by blast
  then have "j - k < length (drop k xs)" "drop k xs ! (j - k) = x" by auto
  then show "x \<in> set (drop k xs)" using nth_mem by blast
qed

text \<open>
  Claim C8. For every price history of at least 14 bars in which no close of the 14-bar
  window is below the close before it and at least one is above it, the mean loss is
  zero and the mean gain positive; the division by the zero mean loss does not fail (it
  gives an infinity in the float arithmetic of the columns), the RSI is 100, and the RSI
  rule classifies it as overbought.
\<close>

theorem rsi_zero_loss:
  assumes len: "14 \<le> length hist"
    and up: "\<forall>j. length hist - 14 \<le> j \<and> 0 < j \<and> j < length hist \<longrightarrow> hist ! (j - 1) \<le> hist ! j"
    and some: "\<exists>j. length hist - 14 \<le> j \<and> 0 < j \<and> j < length hist \<and> hist ! (j - 1) < hist ! j"
  shows "current_rsi hist = Fin 100 \<and>
         rsi_factor hist = (- 1, Fmt ''Overbought (RSI: '' (Fin 100) '')'')"
proof -
  define n where "n = length hist"
  define G where "G = gains (diff (map Fin hist))"
  define L where "L = losses (diff (map Fin hist))"
  have lenG: "length G = n" by (simp add: G_def gains_def n_def)
  have lenL: "length L = n" by (simp add: L_def losses_def n_def)
  have G_nonneg: "\<forall>x\<in>set (drop (n - 14) G). \<exists>r. x = Fin r \<and> 0 \<le> r"
  proof
    fix x assume "x \<in> set (drop (n - 14) G)"
    then obtain j where j: "n - 14 \<le> j" "j < n" "G ! j = x"
      using lenG by (auto simp add: in_set_drop_nth)
    then show "\<exists>r. x = Fin r \<and> 0 \<le> r"
      using gains_nth [of j hist] by (auto simp add: G_def n_def)
  qed
  have L_zero: "\<forall>x\<in>set (drop (n - 14) L). x = Fin 0"
  proof
    fix x assume "x \<in> set (drop (n - 14) L)"
    then obtain j where j: "n - 14 \<le> j" "j < n" "L ! j = x"
      using lenL by (auto simp add: in_set_drop_nth)
    show "x = Fin 0"
    proof (cases "j = 0")
      case True
      then show ?thesis using j losses_nth [of j hist] by (simp add: L_def n_def)
    next
      case False
      then have "hist ! (j - 1) \<le> hist ! j" using up j by (simp add: n_def)
      then show ?thesis using j False losses_nth [of j hist] by (simp add: L_def n_def)
    qed
  qed
  from some obtain j where j: "n - 14 \<le> j" "0 < j" "j < n" "hist ! (j - 1) < hist ! j"
    by (auto simp add: n_def)
  have "G ! j \<in> set (drop (n - 14) G)"
    using j lenG by (auto simp add: in_set_drop_nth)
  moreover have "G ! j \<noteq> Fin 0"
    using j gains_nth [of j hist] by (simp add: G_def n_def)
  ultimately have G_pos: "\<not> (\<forall>x\<in>set (drop (n - 14) G). x = Fin 0)" by blast
  from fl_sum_nonneg [OF G_nonneg] G_pos obtain t where
    t: "fl_sum (drop (n - 14) G) = Fin t" "0 < t" by force
  have L_nonneg: "\<forall>x\<in>set (drop (n - 14) L). \<exists>r. x = Fin r \<and> 0 \<le> r"
    using L_zero by auto
  from fl_sum_nonneg [OF L_nonneg] L_zero have l: "fl_sum (drop (n - 14) L) = Fin 0" by auto
  have gain: "rolling_mean_last 14 G = Fin (t / 14)"
    using len t(1) lenG by (simp add: rolling_mean_last_def n_def)
  have loss: "rolling_mean_last 14 L = Fin 0"
    using len l lenL by (simp add: rolling_mean_last_def n_def)
  have rsi: "current_rsi hist = Fin 100"
    using gain loss t(2) by (simp add: current_rsi_def G_def [symmetric] L_def [symmetric] fl_sub_def)
  have "hist \<noteq> []" using len by auto
  then show ?thesis using rsi len by (simp add: rsi_factor_def)
qed

theorem rsi_zero_loss_witness:
  "current_rsi rising_history = Fin 100 \<and>
   rsi_factor rising_history = (- 1, Fmt ''Overbought (RSI: '' (Fin 100) '')'')"
proof -
  have 1: "14 \<le> length rising_history" by (simp add: rising_history_def)
  have 2: "\<forall>j. length rising_history - 14 \<le> j \<and> 0 < j \<and> j < length rising_history \<longrightarrow>
             rising_history ! (j - 1) \<le> rising_history ! j"
  proof (intro allI impI)
    fix j assume "length rising_history - 14 \<le> j \<and> 0 < j \<and> j < length rising_history"
    then have "j \<in> {1..<14}" by (simp add: rising_history_def)
    then have "j \<in> set [1..<14]" by simp
    then show "rising_history ! (j - 1) \<le> rising_history ! j"
      unfolding rising_history_def by (simp add: upt_rec) (elim disjE; simp)
  qed
  have 3: "\<exists>j. length rising_history - 14 \<le> j \<and> 0 < j \<and> j < length rising_history \<and>
             rising_history ! (j - 1) < rising_history ! j"
    by (rule exI [of _ 2]) (simp add: rising_history_def)
  show ?thesis by (rule rsi_zero_loss [OF 1 2 3])
qed

section \<open>Symbol resolution\<close>

text \<open>The substring test finds exactly the contiguous occurrences.\<close>

lemma starts_with_iff: "starts_with a b \<longleftrightarrow> (\<exists>s. b = a @ s)"
  by (induction a b rule: starts_with.induct) auto

lemma py_in_iff: "py_in a b \<longleftrightarrow> (\<exists>p s. b = p @ a @ s)"
proof (induction b)
  case Nil
  then show ?case by auto
next
  case (Cons c cs)
  show ?case
  proof
    assume "py_in a (c # cs)"
    then consider "starts_with a (c # cs)" | "py_in a cs" by auto
    then show "\<exists>p s. c # cs = p @ a @ s"
    proof cases
      case 1
      then obtain s where "c # cs = a @ s" using starts_with_iff by blast
      then have "c # cs = [] @ a @ s" by simp
      then show ?thesis by blast
    next
      case 2
      then obtain p s where "cs = p @ a @ s" using Cons.IH by blast
      then have "c # cs = (c # p) @ a @ s" by simp
      then show ?thesis by blast
    qed
  next
    assume "\<exists>p s. c # cs = p @ a @ s"
    then obtain p s where ps: "c # cs = p @ a @ s" by blast
    show "py_in a (c # cs)"
    proof (cases p)
      case Nil
      then have "starts_with a (c # cs)" using ps starts_with_iff by auto
      then show ?thesis by simp
    next
      case (Cons d p')
      then have "cs = p' @ a @ s" using ps by simp
      then have "py_in a cs" using Cons.IH by blast
      then show ?thesis by simp
    qed
  qed
qed

text \<open>
  The loops are searches for the first entry of a table, or the first exchange suffix,
  that passes the test.
\<close>

lemma partial_match_find:
  "partial_match q t =
     map_option snd (find (\<lambda>(name, symbol). py_in q name \<or> py_in name q) t)"
  by (induction q t rule: partial_match.induct) auto

lemma find_append_cases:
  "find P (xs @ ys) = (case find P xs of None \<Rightarrow> find P ys | Some x \<Rightarrow> Some x)"
  by (induction xs) auto

lemma probe_exchanges_find:
  "probe_exchanges v u es = map_option (\<lambda>e. u @ e) (find (\<lambda>e. v (u @ e)) es)"
  by (induction v u es rule: probe_exchanges.induct) (auto simp add: Let_def)

text \<open>The two queries of the specification, evaluated.\<close>

lemma lower_tcs: "strip (lower ''tcs'') = ''tcs''"
  by (simp add: lower_def lower_char_def strip_def is_space_def)

lemma upper_tcs: "upper ''tcs'' = ''TCS''"
  by (simp add: upper_def upper_char_def)

lemma lower_tata: "strip (lower ''tata consultancy'') = ''tata consultancy''"
  by (simp add: lower_def lower_char_def strip_def is_space_def)

lemma upper_tata: "upper ''tata consultancy'' = ''TATA CONSULTANCY''"
  by (simp add: upper_def upper_char_def)

lemma tcs_exact: "map_of indian_companies ''tcs'' = Some ''TCS.NS''"
  by (simp add: indian_companies_def)

lemma tata_not_exact:
  "map_of indian_companies ''tata consultancy'' = None"
  "map_of us_companies ''tata consultancy'' = None"
  by (simp_all add: indian_companies_def us_companies_def)

lemma tata_partial:
  "find (\<lambda>(name, symbol). py_in ''tata consultancy'' name \<or> py_in name ''tata consultancy'')
     (indian_companies @ us_companies) = Some (''tata consultancy services'', ''TCS.NS'')"
  by (simp add: indian_companies_def)

text \<open>
  Claim C9. \<^verbatim>\<open>search_company\<close> returns a symbol for every query, and its branches apply
  in order, the first match winning: a query whose upper-case form the provider accepts
  is returned in upper case; otherwise an exact match of the lower-cased, stripped query
  in the domestic table wins, then one in the secondary table; otherwise the first entry,
  in the order of the domestic table followed by the secondary table, whose name
  contains the query or is contained in it; otherwise the first exchange suffix that
  makes the upper-cased query valid; otherwise the upper-cased query itself. When the
  provider does not accept them as symbols, "tcs" resolves to "TCS.NS" by exact match
  and "tata consultancy" resolves to "TCS.NS" through the entry "tata consultancy
  services".
\<close>

theorem search_company_branches:
  "(is_valid (upper q) \<longrightarrow> search_company is_valid q = upper q) \<and>
   (\<not> is_valid (upper q) \<and> map_of indian_companies (strip (lower q)) = Some symb \<longrightarrow>
      search_company is_valid q = symb) \<and>
   (\<not> is_valid (upper q) \<and> map_of indian_companies (strip (lower q)) = None \<and>
    map_of us_companies (strip (lower q)) = Some symb \<longrightarrow>
      search_company is_valid q = symb) \<and>
   (\<not> is_valid (upper q) \<and> map_of indian_companies (strip (lower q)) = None \<and>
    map_of us_companies (strip (lower q)) = None \<and>
    find (\<lambda>(name, symbol). py_in (strip (lower q)) name \<or> py_in name (strip (lower q)))
      (indian_companies @ us_companies) = Some (nm, symb) \<longrightarrow>
      search_company is_valid q = symb) \<and>
   (\<not> is_valid (upper q) \<and> map_of indian_companies (strip (lower q)) = None \<and>
    map_of us_companies (strip (lower q)) = None \<and>
    find (\<lambda>(name, symbol). py_in (strip (lower q)) name \<or> py_in name (strip (lower q)))
      (indian_companies @ us_companies) = None \<and>
    find (\<lambda>exchange. is_valid (upper q @ exchange)) indian_exchanges = Some ex \<longrightarrow>
      search_company is_valid q = upper q @ ex) \<and>
   (\<not> is_valid (upper q) \<and> map_of indian_companies (strip (lower q)) = None \<and>
    map_of us_companies (strip (lower q)) = None \<and>
    find (\<lambda>(name, symbol). py_in (strip (lower q)) name \<or> py_in name (strip (lower q)))
      (indian_companies @ us_companies) = None \<and>
    find (\<lambda>exchange. is_valid (upper q @ exchange)) indian_exchanges = None \<longrightarrow>
      search_company is_valid q = upper q) \<and>
   (py_in a b \<longleftrightarrow> (\<exists>p s. b = p @ a @ s)) \<and>
   (\<not> is_valid ''TCS'' \<longrightarrow> search_company is_valid ''tcs'' = ''TCS.NS'') \<and>
   (\<not> is_valid ''TATA CONSULTANCY'' \<longrightarrow>
      search_company is_valid ''tata consultancy'' = ''TCS.NS'' \<and>
      find (\<lambda>(name, symbol). py_in ''tata consultancy'' name \<or> py_in name ''tata consultancy'')
        (indian_companies @ us_companies) = Some (''tata consultancy services'', ''TCS.NS''))"
proof -
  define P where "P = (\<lambda>(name :: string, symbol :: string).
      py_in (strip (lower q)) name \<or> py_in name (strip (lower q)))"
  have unfold: "search_company is_valid q =
     (if is_valid (upper q) then upper q
      else case map_of indian_companies (strip (lower q)) of
        Some symbol \<Rightarrow> symbol
      | None \<Rightarrow>
      (case map_of us_companies (strip (lower q)) of
        Some symbol \<Rightarrow> symbol
      | None \<Rightarrow>
      (case find P (indian_companies @ us_companies) of
        Some (name, symbol) \<Rightarrow> symbol
      | None \<Rightarrow>
      (case find (\<lambda>exchange. is_valid (upper q @ exchange)) indian_exchanges of
        Some exchange \<Rightarrow> upper q @ exchange
      | None \<Rightarrow> upper q))))"
    by (simp add: search_company_def Let_def partial_match_find probe_exchanges_find
        find_append_cases P_def split: option.splits)
  have general: "(is_valid (upper q) \<longrightarrow> search_company is_valid q = upper q) \<and>
   (\<not> is_valid (upper q) \<and> map_of indian_companies (strip (lower q)) = Some symb \<longrightarrow>
      search_company is_valid q = symb) \<and>
   (\<not> is_valid (upper q) \<and> map_of indian_companies (strip (lower q)) = None \<and>
    map_of us_companies (strip (lower q)) = Some symb \<longrightarrow>
      search_company is_valid q = symb) \<and>
   (\<not> is_valid (upper q) \<and> map_of indian_companies (strip (lower q)) = None \<and>
    map_of us_companies (strip (lower q)) = None \<and>
    find P (indian_companies @ us_companies) = Some (nm, symb) \<longrightarrow>
      search_company is_valid q = symb) \<and>
   (\<not> is_valid (upper q) \<and> map_of indian_companies (strip (lower q)) = None \<and>
    map_of us_companies (strip (lower q)) = None \<and>
    find P (indian_companies @ us_companies) = None \<and>
    find (\<lambda>exchange. is_valid (upper q @ exchange)) indian_exchanges = Some ex \<longrightarrow>
      search_company is_valid q = upper q @ ex) \<and>
   (\<not> is_valid (upper q) \<and> map_of indian_companies (strip (lower q)) = None \<and>
    map_of us_companies (strip (lower q)) = None \<and>
    find P (indian_companies @ us_companies) = None \<and>
    find (\<lambda>exchange. is_valid (upper q @ exchange)) indian_exchanges = None \<longrightarrow>
      search_company is_valid q = upper q)"
    unfolding unfold by simp
  have tcs: "\<not> is_valid ''TCS'' \<longrightarrow> search_company is_valid ''tcs'' = ''TCS.NS''"
    by (simp add: search_company_def Let_def lower_tcs upper_tcs tcs_exact)
  have tata: "\<not> is_valid ''TATA CONSULTANCY'' \<longrightarrow>
      search_company is_valid ''tata consultancy'' = ''TCS.NS''"
    using tata_partial
    by (simp add: search_company_def Let_def lower_tata upper_tata tata_not_exact
        partial_match_find find_append_cases split: option.splits)
  show ?thesis
    using general tcs tata tata_partial py_in_iff [of a b] unfolding P_def by blast
qed

theorem search_company_branches_witness:
  "search_company (\<lambda>symbol. symbol = ''AAPL'') ''aapl'' = ''AAPL'' \<and>
   search_company (\<lambda>symbol. False) ''tcs'' = ''TCS.NS'' \<and>
   search_company (\<lambda>symbol. False) ''Apple'' = ''AAPL'' \<and>
   search_company (\<lambda>symbol. False) ''tata consultancy'' = ''TCS.NS'' \<and>
   search_company (\<lambda>symbol. symbol = ''ZOMATO.NS'') ''zomato'' = ''ZOMATO.NS'' \<and>
   search_company (\<lambda>symbol. False) ''zomato'' = ''ZOMATO''"
proof -
  note ev = lower_def lower_char_def upper_def upper_char_def strip_def is_space_def
  have a: "search_company (\<lambda>symbol. symbol = ''AAPL'') ''aapl'' = ''AAPL''"
  proof -
    have "(\<lambda>symbol. symbol = ''AAPL'') (upper ''aapl'')" by (simp add: ev)
    moreover have "upper ''aapl'' = ''AAPL''" by (simp add: ev)
    ultimately show ?thesis
      using search_company_branches [of "\<lambda>symbol. symbol = ''AAPL''" "''aapl''" "[]" "[]" "[]" "[]" "[]"]
      by metis
  qed
  have b: "search_company (\<lambda>symbol. False) ''tcs'' = ''TCS.NS''"
    using search_company_branches [of "\<lambda>symbol. False" "''tcs''" "[]" "[]" "[]" "[]" "[]"]
    by blast
  have c: "search_company (\<lambda>symbol. False) ''Apple'' = ''AAPL''"
  proof -
    have "\<not> (\<lambda>symbol. False) (upper ''Apple'') \<and>
          map_of indian_companies (strip (lower ''Apple'')) = None \<and>
          map_of us_companies (strip (lower ''Apple'')) = Some ''AAPL''"
      by (simp add: ev indian_companies_def us_companies_def)
    then show ?thesis
      using search_company_branches [of "\<lambda>symbol. False" "''Apple''" "''AAPL''" "[]" "[]" "[]" "[]"]
      by blast
  qed
  have d: "search_company (\<lambda>symbol. False) ''tata consultancy'' = ''TCS.NS''"
    using search_company_branches [of "\<lambda>symbol. False" "''tata consultancy''" "[]" "[]" "[]" "[]" "[]"]
    by blast
  have none: "map_of indian_companies (strip (lower ''zomato'')) = None \<and>
      map_of us_companies (strip (lower ''zomato'')) = None \<and>
      find (\<lambda>(name, symbol). py_in (strip (lower ''zomato'')) name \<or>
                             py_in name (strip (lower ''zomato'')))
        (indian_companies @ us_companies) = None"
    by (simp add: ev indian_companies_def us_companies_def)
  have e: "search_company (\<lambda>symbol. symbol = ''ZOMATO.NS'') ''zomato'' = ''ZOMATO.NS''"
  proof -
    have "\<not> (\<lambda>symbol. symbol = ''ZOMATO.NS'') (upper ''zomato'') \<and>
          find (\<lambda>exchange. (\<lambda>symbol. symbol = ''ZOMATO.NS'') (upper ''zomato'' @ exchange))
            indian_exchanges = Some ''.NS''"
      by (simp add: ev indian_exchanges_def)
    moreover have "upper ''zomato'' @ ''.NS'' = ''ZOMATO.NS''" by (simp add: ev)
    ultimately show ?thesis
      using none
        search_company_branches [of "\<lambda>symbol. symbol = ''ZOMATO.NS''" "''zomato''" "[]" "[]" "''.NS''" "[]" "[]"]
      by metis
  qed
  have f: "search_company (\<lambda>symbol. False) ''zomato'' = ''ZOMATO''"
  proof -
    have "\<not> (\<lambda>symbol. False) (upper ''zomato'') \<and>
          find (\<lambda>exchange. (\<lambda>symbol. False) (upper ''zomato'' @ exchange))
            indian_exchanges = None"
      by (simp add: ev indian_exchanges_def)
    moreover have "upper ''zomato'' = ''ZOMATO''" by (simp add: ev)
    ultimately show ?thesis
      using none
        search_company_branches [of "\<lambda>symbol. False" "''zomato''" "[]" "[]" "[]" "[]" "[]"]
      by metis
  qed
  show ?thesis using a b c d e f by blast
qed

end
